theory Spec2Isabelle
  imports Main
begin

section \<open>The user authentication service\<close>

text \<open>
  The development embeds \<^verbatim>\<open>0x03-user_authentication_service\<close> (\<^verbatim>\<open>user.py\<close>,
  \<^verbatim>\<open>db.py\<close>, \<^verbatim>\<open>auth.py\<close>) and \<^verbatim>\<open>0x00-personal_data/encrypt_password.py\<close>.

  Python values that reach the store are values of \<open>pyval\<close>; a \<^verbatim>\<open>str\<close> among them
  is kept as the bytes of its UTF-8 encoding. A password is a \<^verbatim>\<open>str\<close> that the code
  encodes itself: it is the list of its code points (\<open>pystr\<close>), and \<open>encode_utf8\<close> is
  \<^verbatim>\<open>password.encode("utf-8")\<close>, which raises UnicodeEncodeError at a lone surrogate
  (a code point from D800 to DFFF). The code points of a \<^verbatim>\<open>str\<close> are below 110000.
\<close>

subsection \<open>Values and errors\<close>

type_synonym bytes = string

datatype pyval = PNone | PInt int | PStr string | PBytes bytes

datatype error =
    InvalidRequestError
  | NoResultFound
  | ValueError string
  | IntegrityError
  | TypeError
  | UnicodeEncodeError
  | LibraryError string

type_synonym pystr = "nat list"

definition encode_code_point :: "nat \<Rightarrow> error + bytes" where
  "encode_code_point c =
     (if c < 0x80 then Inr [char_of c]
      else if c < 0x800 then Inr [char_of (0xC0 + c div 0x40), char_of (0x80 + c mod 0x40)]
      else if 0xD800 \<le> c \<and> c < 0xE000 then Inl UnicodeEncodeError
      else if c < 0x10000 then
        Inr [char_of (0xE0 + c div 0x1000), char_of (0x80 + c div 0x40 mod 0x40),
             char_of (0x80 + c mod 0x40)]
      else
        Inr [char_of (0xF0 + c div 0x40000), char_of (0x80 + c div 0x1000 mod 0x40),
             char_of (0x80 + c div 0x40 mod 0x40), char_of (0x80 + c mod 0x40)])"

fun encode_utf8 :: "pystr \<Rightarrow> error + bytes" where
  "encode_utf8 [] = Inr []"
| "encode_utf8 (c # cs) =
     (case encode_code_point c of
        Inl e \<Rightarrow> Inl e
      | Inr bs \<Rightarrow> (case encode_utf8 cs of Inl e \<Rightarrow> Inl e | Inr rest \<Rightarrow> Inr (bs @ rest)))"

subsection \<open>user.py: the User entity\<close>

text \<open>
  Class \<^verbatim>\<open>User\<close> declares five columns. \<^verbatim>\<open>id\<close> is the integer primary key (the
  field is called \<open>id'\<close> here, \<open>id\<close> being the identity function of HOL); the other
  four hold whatever Python value was written to them, \<open>PNone\<close> standing for NULL.
\<close>

record user =
  id' :: int
  email :: pyval
  hashed_password :: pyval
  session_id :: pyval
  reset_token :: pyval

datatype column = C_id | C_email | C_hashed_password | C_session_id | C_reset_token

datatype attr = Column column | Other string

fun col_val :: "column \<Rightarrow> user \<Rightarrow> pyval" where
  "col_val C_id r = PInt (id' r)"
| "col_val C_email r = email r"
| "col_val C_hashed_password r = hashed_password r"
| "col_val C_session_id r = session_id r"
| "col_val C_reset_token r = reset_token r"

subsection \<open>What the code takes from its libraries\<close>

text \<open>
  \<^verbatim>\<open>bcrypt\<close> and SQLAlchemy are not part of the repository. What the code needs from
  them is a parameter \<open>L\<close> of every operation:
  \<^item> \<open>hashpw L password salt\<close> and \<open>checkpw L password hashed\<close> are
    \<^verbatim>\<open>bcrypt.hashpw\<close> and \<^verbatim>\<open>bcrypt.checkpw\<close>, each returning its value or the
    exception it raises;
  \<^item> \<open>other_attr L name\<close> says whether \<^verbatim>\<open>hasattr(User, name)\<close> holds for a name
    that is not one of the five columns (\<^verbatim>\<open>__tablename__\<close>, \<^verbatim>\<open>metadata\<close> and the
    other names the class gets from the declarative base and from \<^verbatim>\<open>object\<close>);
  \<^item> \<open>other_filter L name v\<close> is what a query does with such an attribute compared
    with \<open>v\<close>: it raises, or the comparison has one truth value for every row;
  \<^item> \<open>other_update L name v\<close> is what an UPDATE does with such an attribute as a
    key: it raises, or it changes no column.
  The results of \<^verbatim>\<open>bcrypt.gensalt()\<close> and \<^verbatim>\<open>uuid4()\<close> are random: they are
  arguments (\<open>salt\<close>, \<open>uuid\<close>) of the operations that draw them.
\<close>

record libs =
  hashpw :: "bytes \<Rightarrow> bytes \<Rightarrow> error + bytes"
  checkpw :: "bytes \<Rightarrow> pyval \<Rightarrow> error + bool"
  other_attr :: "string \<Rightarrow> bool"
  other_filter :: "string \<Rightarrow> pyval \<Rightarrow> error + bool"
  other_update :: "string \<Rightarrow> pyval \<Rightarrow> error + unit"

definition getattr_User :: "libs \<Rightarrow> string \<Rightarrow> attr option" where
  "getattr_User L key =
     (if key = ''id'' then Some (Column C_id)
      else if key = ''email'' then Some (Column C_email)
      else if key = ''hashed_password'' then Some (Column C_hashed_password)
      else if key = ''session_id'' then Some (Column C_session_id)
      else if key = ''reset_token'' then Some (Column C_reset_token)
      else if other_attr L key then Some (Other key)
      else None)"

definition hasattr_User :: "libs \<Rightarrow> string \<Rightarrow> bool" where
  "hasattr_User L key = (getattr_User L key \<noteq> None)"

subsection \<open>db.py: the store\<close>

text \<open>
  The state of \<^verbatim>\<open>DB\<close> is the rows of table \<^verbatim>\<open>users\<close>. A keyword dictionary
  \<^verbatim>\<open>**kwargs\<close> is an association list in the order of the call.

  A query compares as SQL does: NULL equals nothing, not even NULL. Values of different
  Python types are different; the conversions SQLite makes between text and numbers are
  not modelled. \<^verbatim>\<open>.first()\<close> reads the table in ascending \<^verbatim>\<open>id\<close>, the order of a
  SQLite table scan. A lookup with no criteria and an update with no key, which the
  service never issues, are taken to match every row and to change nothing.
\<close>

type_synonym db = "user list"

definition sql_eq :: "pyval \<Rightarrow> pyval \<Rightarrow> bool" where
  "sql_eq a b = (a \<noteq> PNone \<and> b \<noteq> PNone \<and> a = b)"

fun first_row :: "(user \<Rightarrow> bool) \<Rightarrow> user list \<Rightarrow> user option" where
  "first_row P [] = None"
| "first_row P (r # rs) =
     (case first_row P rs of
        None \<Rightarrow> (if P r then Some r else None)
      | Some r' \<Rightarrow> (if P r \<and> id' r \<le> id' r' then Some r else Some r'))"

text \<open>The loop of \<^verbatim>\<open>find_user_by\<close>: the fields and values, or InvalidRequestError at
  the first key that is no attribute of \<^verbatim>\<open>User\<close>.\<close>

fun collect_fields :: "libs \<Rightarrow> (string \<times> pyval) list \<Rightarrow> error + (attr \<times> pyval) list" where
  "collect_fields L [] = Inr []"
| "collect_fields L ((key, v) # kwargs) =
     (case getattr_User L key of
        None \<Rightarrow> Inl InvalidRequestError
      | Some a \<Rightarrow>
          (case collect_fields L kwargs of
             Inl e \<Rightarrow> Inl e
           | Inr fvs \<Rightarrow> Inr ((a, v) # fvs)))"

text \<open>The filter \<^verbatim>\<open>tuple_(*fields).in_([tuple(values)])\<close>: every column equals its
  value. The operands that are no columns are judged first, for all rows at once.\<close>

fun row_matches :: "(attr \<times> pyval) list \<Rightarrow> user \<Rightarrow> bool" where
  "row_matches [] r = True"
| "row_matches ((Column c, v) # fvs) r = (sql_eq (col_val c r) v \<and> row_matches fvs r)"
| "row_matches ((Other n, v) # fvs) r = row_matches fvs r"

fun other_operands :: "libs \<Rightarrow> (attr \<times> pyval) list \<Rightarrow> error + bool" where
  "other_operands L [] = Inr True"
| "other_operands L ((Column c, v) # fvs) = other_operands L fvs"
| "other_operands L ((Other n, v) # fvs) =
     (case other_filter L n v of
        Inl e \<Rightarrow> Inl e
      | Inr b \<Rightarrow> (case other_operands L fvs of Inl e \<Rightarrow> Inl e | Inr b' \<Rightarrow> Inr (b \<and> b')))"

definition query_first :: "libs \<Rightarrow> db \<Rightarrow> (attr \<times> pyval) list \<Rightarrow> error + user option" where
  "query_first L rows fvs =
     (case other_operands L fvs of
        Inl e \<Rightarrow> Inl e
      | Inr b \<Rightarrow> Inr (if b then first_row (row_matches fvs) rows else None))"

definition find_user_by :: "libs \<Rightarrow> db \<Rightarrow> (string \<times> pyval) list \<Rightarrow> error + user" where
  "find_user_by L rows kwargs =
     (case collect_fields L kwargs of
        Inl e \<Rightarrow> Inl e
      | Inr fvs \<Rightarrow>
          (case query_first L rows fvs of
             Inl e \<Rightarrow> Inl e
           | Inr None \<Rightarrow> Inl NoResultFound
           | Inr (Some result) \<Rightarrow> Inr result))"

text \<open>
  \<^verbatim>\<open>add_user\<close>: the insert fails, is rolled back and gives \<^verbatim>\<open>None\<close> when a column
  declared \<^verbatim>\<open>nullable=False\<close> would be NULL. A new row takes the id after the largest
  one in the table (1 in an empty table), as a SQLite integer primary key does.
\<close>

fun largest_id :: "user list \<Rightarrow> int" where
  "largest_id [] = 0"
| "largest_id (r # rs) = (if rs = [] then id' r else max (id' r) (largest_id rs))"

definition add_user :: "db \<Rightarrow> pyval \<Rightarrow> pyval \<Rightarrow> db \<times> user option" where
  "add_user rows email_arg hashed_password_arg =
     (if email_arg = PNone \<or> hashed_password_arg = PNone then (rows, None)
      else
        let new_user = \<lparr>id' = largest_id rows + 1, email = email_arg,
                         hashed_password = hashed_password_arg,
                         session_id = PNone, reset_token = PNone\<rparr>
        in (rows @ [new_user], Some new_user))"

text \<open>The loop of \<^verbatim>\<open>update_user\<close>: the dictionary \<^verbatim>\<open>update_source\<close>, or ValueError at
  the first key that is no attribute of \<^verbatim>\<open>User\<close>.\<close>

fun update_source :: "libs \<Rightarrow> (string \<times> pyval) list \<Rightarrow> error + (attr \<times> pyval) list" where
  "update_source L [] = Inr []"
| "update_source L ((key, v) # kwargs) =
     (case getattr_User L key of
        None \<Rightarrow> Inl (ValueError [])
      | Some a \<Rightarrow>
          (case update_source L kwargs of
             Inl e \<Rightarrow> Inl e
           | Inr src \<Rightarrow> Inr ((a, v) # src)))"

text \<open>
  The UPDATE statement. A key that is no column is judged by the library. Writing a
  column of one row: \<^verbatim>\<open>email\<close> and \<^verbatim>\<open>hashed_password\<close> refuse NULL, the primary key
  refuses what is no integer; the statement then fails as a whole (IntegrityError) and
  the table is unchanged. Two rows with one id fail the same way.
\<close>

fun other_keys :: "libs \<Rightarrow> (attr \<times> pyval) list \<Rightarrow> error + unit" where
  "other_keys L [] = Inr ()"
| "other_keys L ((Column c, v) # src) = other_keys L src"
| "other_keys L ((Other n, v) # src) =
     (case other_update L n v of Inl e \<Rightarrow> Inl e | Inr u \<Rightarrow> other_keys L src)"

fun assign :: "column \<Rightarrow> pyval \<Rightarrow> user \<Rightarrow> error + user" where
  "assign C_id v r = (case v of PInt n \<Rightarrow> Inr (r\<lparr>id' := n\<rparr>) | _ \<Rightarrow> Inl IntegrityError)"
| "assign C_email v r = (if v = PNone then Inl IntegrityError else Inr (r\<lparr>email := v\<rparr>))"
| "assign C_hashed_password v r =
     (if v = PNone then Inl IntegrityError else Inr (r\<lparr>hashed_password := v\<rparr>))"
| "assign C_session_id v r = Inr (r\<lparr>session_id := v\<rparr>)"
| "assign C_reset_token v r = Inr (r\<lparr>reset_token := v\<rparr>)"

fun set_columns :: "(attr \<times> pyval) list \<Rightarrow> user \<Rightarrow> error + user" where
  "set_columns [] r = Inr r"
| "set_columns ((Column c, v) # src) r =
     (case assign c v r of Inl e \<Rightarrow> Inl e | Inr r' \<Rightarrow> set_columns src r')"
| "set_columns ((Other n, v) # src) r = set_columns src r"

fun update_rows :: "(attr \<times> pyval) list \<Rightarrow> pyval \<Rightarrow> user list \<Rightarrow> error + user list" where
  "update_rows src user_id [] = Inr []"
| "update_rows src user_id (r # rs) =
     (if sql_eq (PInt (id' r)) user_id then
        (case set_columns src r of
           Inl e \<Rightarrow> Inl e
         | Inr r' \<Rightarrow>
             (case update_rows src user_id rs of Inl e \<Rightarrow> Inl e | Inr rs' \<Rightarrow> Inr (r' # rs')))
      else
        (case update_rows src user_id rs of Inl e \<Rightarrow> Inl e | Inr rs' \<Rightarrow> Inr (r # rs')))"

definition query_update :: "libs \<Rightarrow> db \<Rightarrow> pyval \<Rightarrow> (attr \<times> pyval) list \<Rightarrow> error + db" where
  "query_update L rows user_id src =
     (case other_keys L src of
        Inl e \<Rightarrow> Inl e
      | Inr u \<Rightarrow>
          (case update_rows src user_id rows of
             Inl e \<Rightarrow> Inl e
           | Inr rows' \<Rightarrow>
               (if Column C_id \<in> fst ` set src \<and> \<not> distinct (map id' rows')
                then Inl IntegrityError else Inr rows')))"

text \<open>\<^verbatim>\<open>update_user\<close>. \<^verbatim>\<open>find_user_by\<close> raises when it finds nothing, so the test
  \<^verbatim>\<open>user is None\<close> after it never holds.\<close>

definition update_user :: "libs \<Rightarrow> db \<Rightarrow> pyval \<Rightarrow> (string \<times> pyval) list \<Rightarrow> error + db" where
  "update_user L rows user_id kwargs =
     (case find_user_by L rows [(''id'', user_id)] of
        Inl e \<Rightarrow> Inl e
      | Inr usr \<Rightarrow>
          (case update_source L kwargs of
             Inl e \<Rightarrow> Inl e
           | Inr src \<Rightarrow> query_update L rows user_id src))"

subsection \<open>encrypt\_password.py\<close>

definition hash_password :: "libs \<Rightarrow> bytes \<Rightarrow> pystr \<Rightarrow> error + bytes" where
  "hash_password L salt password =
     (case encode_utf8 password of Inl e \<Rightarrow> Inl e | Inr pw \<Rightarrow> hashpw L pw salt)"

definition is_valid :: "libs \<Rightarrow> pyval \<Rightarrow> pystr \<Rightarrow> error + bool" where
  "is_valid L hashed password =
     (case encode_utf8 password of Inl e \<Rightarrow> Inl e | Inr pw \<Rightarrow> checkpw L pw hashed)"

subsection \<open>auth.py: the Auth service\<close>

text \<open>
  The state of \<^verbatim>\<open>Auth\<close> is the table behind \<^verbatim>\<open>self._db\<close>. An operation that
  writes returns the new table with its value; one that raises leaves the table as it
  was, no write having been made before the exception. \<open>auth_hash_password\<close> is
  \<^verbatim>\<open>_hash_password\<close>, and \<open>uuid\<close> is what \<^verbatim>\<open>_generate_uuid()\<close> returned.
\<close>

definition auth_hash_password :: "libs \<Rightarrow> bytes \<Rightarrow> pystr \<Rightarrow> error + bytes" where
  "auth_hash_password L salt password =
     (case encode_utf8 password of Inl e \<Rightarrow> Inl e | Inr pw \<Rightarrow> hashpw L pw salt)"

definition register_user ::
  "libs \<Rightarrow> db \<Rightarrow> string \<Rightarrow> pystr \<Rightarrow> bytes \<Rightarrow> error + db \<times> user option" where
  "register_user L rows email_arg password salt =
     (case find_user_by L rows [(''email'', PStr email_arg)] of
        Inl NoResultFound \<Rightarrow>
          (case auth_hash_password L salt password of
             Inl e \<Rightarrow> Inl e
           | Inr h \<Rightarrow> Inr (add_user rows (PStr email_arg) (PBytes h)))
      | Inl e \<Rightarrow> Inl e
      | Inr usr \<Rightarrow> Inl (ValueError (''User '' @ email_arg @ '' already exists'')))"

text \<open>
  \<^verbatim>\<open>valid_login\<close>: the lookup, the encoding and \<^verbatim>\<open>bcrypt.checkpw\<close> all run inside
  the \<^verbatim>\<open>try\<close>, whose handler turns a NoResultFound, wherever it was raised, into
  \<^verbatim>\<open>False\<close> and lets every other exception pass.
\<close>

definition except_NoResultFound :: "error + bool \<Rightarrow> error + bool" where
  "except_NoResultFound body =
     (case body of Inl NoResultFound \<Rightarrow> Inr False | Inl e \<Rightarrow> Inl e | Inr b \<Rightarrow> Inr b)"

definition valid_login :: "libs \<Rightarrow> db \<Rightarrow> string \<Rightarrow> pystr \<Rightarrow> error + bool" where
  "valid_login L rows email_arg password =
     except_NoResultFound
       (case find_user_by L rows [(''email'', PStr email_arg)] of
          Inl e \<Rightarrow> Inl e
        | Inr usr \<Rightarrow>
            (case encode_utf8 password of
               Inl e \<Rightarrow> Inl e
             | Inr pw \<Rightarrow> checkpw L pw (hashed_password usr)))"

definition create_session ::
  "libs \<Rightarrow> db \<Rightarrow> string \<Rightarrow> string \<Rightarrow> error + db \<times> string option" where
  "create_session L rows email_arg uuid =
     (case find_user_by L rows [(''email'', PStr email_arg)] of
        Inl NoResultFound \<Rightarrow> Inr (rows, None)
      | Inl e \<Rightarrow> Inl e
      | Inr usr \<Rightarrow>
          (case update_user L rows (PInt (id' usr)) [(''session_id'', PStr uuid)] of
             Inl e \<Rightarrow> Inl e
           | Inr rows' \<Rightarrow> Inr (rows', Some uuid)))"

definition get_user_from_session_id ::
  "libs \<Rightarrow> db \<Rightarrow> string option \<Rightarrow> error + user option" where
  "get_user_from_session_id L rows sid =
     (case sid of
        None \<Rightarrow> Inr None
      | Some s \<Rightarrow>
          (case find_user_by L rows [(''session_id'', PStr s)] of
             Inl NoResultFound \<Rightarrow> Inr None
           | Inl e \<Rightarrow> Inl e
           | Inr usr \<Rightarrow> Inr (Some usr)))"

definition destroy_session :: "libs \<Rightarrow> db \<Rightarrow> int option \<Rightarrow> error + db" where
  "destroy_session L rows user_id =
     (case user_id of
        None \<Rightarrow> Inr rows
      | Some n \<Rightarrow> update_user L rows (PInt n) [(''session_id'', PNone)])"

definition get_reset_password_token ::
  "libs \<Rightarrow> db \<Rightarrow> string \<Rightarrow> string \<Rightarrow> error + db \<times> string" where
  "get_reset_password_token L rows email_arg uuid =
     (case find_user_by L rows [(''email'', PStr email_arg)] of
        Inl NoResultFound \<Rightarrow> Inl (ValueError [])
      | Inl e \<Rightarrow> Inl e
      | Inr usr \<Rightarrow>
          (case update_user L rows (PInt (id' usr)) [(''reset_token'', PStr uuid)] of
             Inl e \<Rightarrow> Inl e
           | Inr rows' \<Rightarrow> Inr (rows', uuid)))"

definition update_password ::
  "libs \<Rightarrow> db \<Rightarrow> string \<Rightarrow> pystr \<Rightarrow> bytes \<Rightarrow> error + db" where
  "update_password L rows token password salt =
     (case find_user_by L rows [(''reset_token'', PStr token)] of
        Inl NoResultFound \<Rightarrow> Inl (ValueError [])
      | Inl e \<Rightarrow> Inl e
      | Inr usr \<Rightarrow>
          (case auth_hash_password L salt password of
             Inl e \<Rightarrow> Inl e
           | Inr new_password_hash \<Rightarrow>
               update_user L rows (PInt (id' usr))
                 [(''hashed_password'', PBytes new_password_hash), (''reset_token'', PNone)]))"

subsection \<open>Notions used to state the properties\<close>

text \<open>The table an operation leaves behind: the one it returns, or the one it started
  from when it raised.\<close>

definition table_after :: "db \<Rightarrow> error + db \<Rightarrow> db" where
  "table_after rows res = (case res of Inl e \<Rightarrow> rows | Inr rows' \<Rightarrow> rows')"

text \<open>
  The tables of the service: \<^verbatim>\<open>id\<close> is the primary key, and no session token and no
  reset token is held by two users. Every operation of \<^verbatim>\<open>Auth\<close> keeps a table such,
  provided the token it draws is not in use (lemmas \<open>store_ok_\<close>\dots\ below).
\<close>

definition store_ok :: "db \<Rightarrow> bool" where
  "store_ok rows =
     (distinct (map id' rows)
      \<and> (\<forall>r\<in>set rows. \<forall>r'\<in>set rows.
            session_id r \<noteq> PNone \<and> session_id r = session_id r' \<longrightarrow> id' r = id' r')
      \<and> (\<forall>r\<in>set rows. \<forall>r'\<in>set rows.
            reset_token r \<noteq> PNone \<and> reset_token r = reset_token r' \<longrightarrow> id' r = id' r'))"

text \<open>
  An instance of the libraries for the closed examples. Its \<^verbatim>\<open>hashpw\<close> and
  \<^verbatim>\<open>checkpw\<close> have the framing of the \<^verbatim>\<open>bcrypt\<close> package: a salt begins with
  \<^verbatim>\<open>$2b$\<close> and has 29 characters or more, of which the first 29 are used; a hash begins
  with its salt; any other salt is refused with \<^verbatim>\<open>ValueError("Invalid salt")\<close>;
  \<^verbatim>\<open>checkpw\<close> hashes the password with the given hash as the salt and compares. The
  digest itself is a placeholder, not Blowfish.
\<close>

definition valid_salt :: "bytes \<Rightarrow> bool" where
  "valid_salt s = (take 4 s = ''$2b$'' \<and> 29 \<le> length s)"

definition placeholder_digest :: "bytes \<Rightarrow> bytes \<Rightarrow> bytes" where
  "placeholder_digest salt pw = take 31 (rev pw @ replicate 31 (CHR ''.''))"

definition instance_hashpw :: "bytes \<Rightarrow> bytes \<Rightarrow> error + bytes" where
  "instance_hashpw pw salt =
     (if valid_salt salt then Inr (take 29 salt @ placeholder_digest (take 29 salt) pw)
      else Inl (ValueError ''Invalid salt''))"

definition instance_checkpw :: "bytes \<Rightarrow> pyval \<Rightarrow> error + bool" where
  "instance_checkpw pw hashed =
     (case hashed of
        PBytes h \<Rightarrow> (case instance_hashpw pw h of Inl e \<Rightarrow> Inl e | Inr r \<Rightarrow> Inr (r = h))
      | _ \<Rightarrow> Inl TypeError)"

definition instance_libs :: libs where
  "instance_libs =
     \<lparr>hashpw = instance_hashpw, checkpw = instance_checkpw,
      other_attr = (\<lambda>name. name = ''__tablename__'' \<or> name = ''metadata''),
      other_filter = (\<lambda>name v. Inl (LibraryError name)),
      other_update = (\<lambda>name v. Inl (LibraryError name))\<rparr>"

definition example_user :: user where
  "example_user =
     \<lparr>id' = 1, email = PStr ''bob@hbtn.io'',
      hashed_password = PBytes ''$2b$12$abcdefghijklmnopqrstuvdrowssap.......................'',
      session_id = PNone, reset_token = PNone\<rparr>"

definition example_salt :: bytes where
  "example_salt = ''$2b$12$abcdefghijklmnopqrstuv''"

text \<open>The \<^verbatim>\<open>str\<close> made of the given ASCII characters.\<close>

definition ascii :: "string \<Rightarrow> pystr" where
  "ascii s = map of_char s"

section \<open>Lookups and updates\<close>

lemma first_row_None: "first_row P rs = None \<longleftrightarrow> (\<forall>r\<in>set rs. \<not> P r)"
  by (induction rs) (auto split: option.splits)

lemma first_row_Some: "first_row P rs = Some u \<Longrightarrow> u \<in> set rs \<and> P u"
  by (induction rs arbitrary: u) (auto split: option.splits if_splits)

lemma first_row_map:
  assumes "\<And>r. P' (g r) = P r" and "\<And>r. id' (g r) = id' r"
  shows "first_row P' (map g rs) = map_option g (first_row P rs)"
  using assms by (induction rs) (auto split: option.splits)

lemma first_row_unique:
  assumes "u \<in> set rs" "P u" "\<forall>r\<in>set rs. P r \<longrightarrow> r = u"
  shows "first_row P rs = Some u"
proof (cases "first_row P rs")
  case None
  then have "\<forall>r\<in>set rs. \<not> P r" by (simp add: first_row_None)
  with assms(1,2) show ?thesis by blast
next
  case (Some w)
  from first_row_Some[OF Some] have "w \<in> set rs" and "P w" by simp_all
  with assms(3) have "w = u" by blast
  with Some show ?thesis by simp
qed

lemma getattr_columns:
  "getattr_User L ''id'' = Some (Column C_id)"
  "getattr_User L ''email'' = Some (Column C_email)"
  "getattr_User L ''hashed_password'' = Some (Column C_hashed_password)"
  "getattr_User L ''session_id'' = Some (Column C_session_id)"
  "getattr_User L ''reset_token'' = Some (Column C_reset_token)"
  by (simp_all add: getattr_User_def)

lemma find_user_by_column:
  assumes "getattr_User L k = Some (Column c)"
  shows "find_user_by L rows [(k, v)] =
     (case first_row (\<lambda>r. sql_eq (col_val c r) v) rows of
        None \<Rightarrow> Inl NoResultFound | Some u \<Rightarrow> Inr u)"
proof -
  have "row_matches [(Column c, v)] = (\<lambda>r. sql_eq (col_val c r) v)"
    by (rule ext) simp
  with assms show ?thesis
    by (simp add: find_user_by_def query_first_def split: option.splits)
qed

lemma update_rows_map:
  assumes "\<And>r. set_columns src r = Inr (g r)"
  shows "update_rows src uid rows = Inr (map (\<lambda>r. if sql_eq (PInt (id' r)) uid then g r else r) rows)"
  using assms by (induction rows) auto




lemma find_user_by_id:
  "find_user_by L rows [(''id'', PInt n)] =
     (case first_row (\<lambda>r. id' r = n) rows of None \<Rightarrow> Inl NoResultFound | Some u \<Rightarrow> Inr u)"
  by (simp add: find_user_by_column[OF getattr_columns(1)] sql_eq_def)

lemma find_user_by_email:
  "find_user_by L rows [(''email'', PStr e)] =
     (case first_row (\<lambda>r. email r = PStr e) rows of None \<Rightarrow> Inl NoResultFound | Some u \<Rightarrow> Inr u)"
proof -
  have "(\<lambda>r. sql_eq (col_val C_email r) (PStr e)) = (\<lambda>r. email r = PStr e)"
    by (rule ext) (auto simp: sql_eq_def)
  then show ?thesis by (simp add: find_user_by_column[OF getattr_columns(2)])
qed

lemma find_user_by_session_id:
  "find_user_by L rows [(''session_id'', PStr s)] =
     (case first_row (\<lambda>r. session_id r = PStr s) rows of None \<Rightarrow> Inl NoResultFound | Some u \<Rightarrow> Inr u)"
proof -
  have "(\<lambda>r. sql_eq (col_val C_session_id r) (PStr s)) = (\<lambda>r. session_id r = PStr s)"
    by (rule ext) (auto simp: sql_eq_def)
  then show ?thesis by (simp add: find_user_by_column[OF getattr_columns(4)])
qed

lemma find_user_by_reset_token:
  "find_user_by L rows [(''reset_token'', PStr t)] =
     (case first_row (\<lambda>r. reset_token r = PStr t) rows of None \<Rightarrow> Inl NoResultFound | Some u \<Rightarrow> Inr u)"
proof -
  have "(\<lambda>r. sql_eq (col_val C_reset_token r) (PStr t)) = (\<lambda>r. reset_token r = PStr t)"
    by (rule ext) (auto simp: sql_eq_def)
  then show ?thesis by (simp add: find_user_by_column[OF getattr_columns(5)])
qed

lemma find_user_by_id_found:
  "(\<exists>u. find_user_by L rows [(''id'', PInt n)] = Inr u) = (\<exists>r\<in>set rows. id' r = n)"
proof (cases "first_row (\<lambda>r. id' r = n) rows")
  case None
  then have "\<forall>r\<in>set rows. id' r \<noteq> n" by (simp add: first_row_None)
  with None show ?thesis by (simp add: find_user_by_id)
next
  case (Some w)
  from first_row_Some[OF Some] have "\<exists>r\<in>set rows. id' r = n" by blast
  with Some show ?thesis by (simp add: find_user_by_id)
qed

lemma find_user_by_id_missing:
  assumes "\<forall>r\<in>set rows. id' r \<noteq> n"
  shows "find_user_by L rows [(''id'', PInt n)] = Inl NoResultFound"
proof -
  from assms have "first_row (\<lambda>r. id' r = n) rows = None" by (simp add: first_row_None)
  then show ?thesis by (simp add: find_user_by_id)
qed

lemma update_user_columns:
  assumes src: "update_source L kwargs = Inr src"
    and oth: "other_keys L src = Inr ()"
    and g: "\<And>r. set_columns src r = Inr (g r)"
    and noid: "Column C_id \<notin> fst ` set src"
  shows "update_user L rows (PInt n) kwargs =
     (if \<exists>r\<in>set rows. id' r = n
      then Inr (map (\<lambda>r. if id' r = n then g r else r) rows)
      else Inl NoResultFound)"
proof (cases "\<exists>r\<in>set rows. id' r = n")
  case False
  then have "find_user_by L rows [(''id'', PInt n)] = Inl NoResultFound"
    by (simp add: find_user_by_id_missing)
  with False show ?thesis by (simp add: update_user_def)
next
  case True
  then obtain w where w: "find_user_by L rows [(''id'', PInt n)] = Inr w"
    using find_user_by_id_found[of L rows n] by blast
  have u: "update_rows src (PInt n) rows =
      Inr (map (\<lambda>r. if sql_eq (PInt (id' r)) (PInt n) then g r else r) rows)"
    using g by (rule update_rows_map)
  have "query_update L rows (PInt n) src = Inr (map (\<lambda>r. if id' r = n then g r else r) rows)"
    using oth noid by (simp add: query_update_def u sql_eq_def)
  with True w src show ?thesis by (simp add: update_user_def)
qed

lemma update_user_session_id:
  "update_user L rows (PInt n) [(''session_id'', v)] =
     (if \<exists>r\<in>set rows. id' r = n
      then Inr (map (\<lambda>r. if id' r = n then r\<lparr>session_id := v\<rparr> else r) rows)
      else Inl NoResultFound)"
  by (rule update_user_columns[where src = "[(Column C_session_id, v)]"])
     (simp_all add: getattr_columns)

lemma update_user_reset_token:
  "update_user L rows (PInt n) [(''reset_token'', v)] =
     (if \<exists>r\<in>set rows. id' r = n
      then Inr (map (\<lambda>r. if id' r = n then r\<lparr>reset_token := v\<rparr> else r) rows)
      else Inl NoResultFound)"
  by (rule update_user_columns[where src = "[(Column C_reset_token, v)]"])
     (simp_all add: getattr_columns)

lemma update_user_password:
  "update_user L rows (PInt n) [(''hashed_password'', PBytes h), (''reset_token'', PNone)] =
     (if \<exists>r\<in>set rows. id' r = n
      then Inr (map (\<lambda>r. if id' r = n
                          then r\<lparr>hashed_password := PBytes h, reset_token := PNone\<rparr> else r) rows)
      else Inl NoResultFound)"
  by (rule update_user_columns[where
        src = "[(Column C_hashed_password, PBytes h), (Column C_reset_token, PNone)]"])
     (simp_all add: getattr_columns)


lemma find_user_by_email_Inr:
  assumes "find_user_by L rows [(''email'', PStr e)] = Inr u"
  shows "u \<in> set rows \<and> email u = PStr e"
proof (cases "first_row (\<lambda>r. email r = PStr e) rows")
  case None
  with assms show ?thesis by (simp add: find_user_by_email)
next
  case (Some w)
  with assms have "w = u" by (simp add: find_user_by_email)
  with first_row_Some[OF Some] show ?thesis by simp
qed

lemma find_user_by_email_missing:
  assumes "\<forall>r\<in>set rows. email r \<noteq> PStr e"
  shows "find_user_by L rows [(''email'', PStr e)] = Inl NoResultFound"
proof -
  from assms have "first_row (\<lambda>r. email r = PStr e) rows = None" by (simp add: first_row_None)
  then show ?thesis by (simp add: find_user_by_email)
qed

lemma collect_fields_missing:
  assumes "(k, v) \<in> set kwargs" and "getattr_User L k = None"
  shows "collect_fields L kwargs = Inl InvalidRequestError"
  using assms
proof (induction kwargs)
  case Nil
  then show ?case by simp
next
  case (Cons kv kwargs)
  obtain k' v' where kv: "kv = (k', v')" by (cases kv)
  show ?case
  proof (cases "getattr_User L k'")
    case None
    with kv show ?thesis by simp
  next
    case (Some a)
    with Cons kv have "collect_fields L kwargs = Inl InvalidRequestError" by auto
    with Some kv show ?thesis by simp
  qed
qed

lemma session_lookup:
  "get_user_from_session_id L rows (Some t) =
     Inr (first_row (\<lambda>r. session_id r = PStr t) rows)"
  by (simp add: get_user_from_session_id_def find_user_by_session_id split: option.splits)

lemma find_user_by_reset_token_Inr:
  assumes "find_user_by L rows [(''reset_token'', PStr t)] = Inr u"
  shows "u \<in> set rows \<and> reset_token u = PStr t"
proof (cases "first_row (\<lambda>r. reset_token r = PStr t) rows")
  case None
  with assms show ?thesis by (simp add: find_user_by_reset_token)
next
  case (Some w)
  with assms have "w = u" by (simp add: find_user_by_reset_token)
  with first_row_Some[OF Some] show ?thesis by simp
qed

lemma find_user_by_reset_token_missing:
  assumes "\<forall>r\<in>set rows. reset_token r \<noteq> PStr t"
  shows "find_user_by L rows [(''reset_token'', PStr t)] = Inl NoResultFound"
proof -
  from assms have "first_row (\<lambda>r. reset_token r = PStr t) rows = None"
    by (simp add: first_row_None)
  then show ?thesis by (simp add: find_user_by_reset_token)
qed

lemma update_password_missing:
  assumes "\<forall>r\<in>set rows. reset_token r \<noteq> PStr t"
  shows "update_password L rows t p salt = Inl (ValueError [])"
proof -
  from assms have "find_user_by L rows [(''reset_token'', PStr t)] = Inl NoResultFound"
    by (rule find_user_by_reset_token_missing)
  then show ?thesis by (simp add: update_password_def)
qed

lemma update_password_found:
  assumes f: "find_user_by L rows [(''reset_token'', PStr t)] = Inr u"
    and h: "auth_hash_password L salt p = Inr h"
  shows "update_password L rows t p salt =
     Inr (map (\<lambda>r. if id' r = id' u
                    then r\<lparr>hashed_password := PBytes h, reset_token := PNone\<rparr> else r) rows)"
proof -
  from f have "u \<in> set rows" by (simp add: find_user_by_reset_token_Inr)
  then have "\<exists>r\<in>set rows. id' r = id' u" by blast
  with f h show ?thesis by (simp add: update_password_def update_user_password)
qed

lemma update_password_Inr:
  assumes f: "find_user_by L rows [(''reset_token'', PStr t)] = Inr u"
    and r: "update_password L rows t p salt = Inr rows'"
  shows "\<exists>h. auth_hash_password L salt p = Inr h \<and>
     rows' = map (\<lambda>r. if id' r = id' u
                    then r\<lparr>hashed_password := PBytes h, reset_token := PNone\<rparr> else r) rows"
proof (cases "auth_hash_password L salt p")
  case (Inl e)
  with f r show ?thesis by (simp add: update_password_def)
next
  case (Inr h)
  from update_password_found[OF f Inr] r Inr show ?thesis by simp
qed

lemma create_session_missing:
  assumes "\<forall>r\<in>set rows. email r \<noteq> PStr e"
  shows "create_session L rows e uuid = Inr (rows, None)"
proof -
  from assms have "find_user_by L rows [(''email'', PStr e)] = Inl NoResultFound"
    by (rule find_user_by_email_missing)
  then show ?thesis by (simp add: create_session_def)
qed

lemma create_session_found:
  assumes f: "find_user_by L rows [(''email'', PStr e)] = Inr u"
  shows "create_session L rows e uuid =
     Inr (map (\<lambda>r. if id' r = id' u then r\<lparr>session_id := PStr uuid\<rparr> else r) rows, Some uuid)"
proof -
  from f have "u \<in> set rows" by (simp add: find_user_by_email_Inr)
  then have "\<exists>r\<in>set rows. id' r = id' u" by blast
  with f show ?thesis by (simp add: create_session_def update_user_session_id)
qed

lemma same_id_same_row:
  assumes "distinct (map id' rows)" "r \<in> set rows" "u \<in> set rows" "id' r = id' u"
  shows "r = u"
proof -
  from assms(1) have "inj_on id' (set rows)" by (simp add: distinct_map)
  with assms(2,3,4) show ?thesis by (auto simp: inj_on_def)
qed

lemma session_lookup_after_write:
  assumes u: "u \<in> set rows"
    and d: "distinct (map id' rows)"
    and fresh: "\<forall>r\<in>set rows. id' r \<noteq> id' u \<longrightarrow> session_id r \<noteq> PStr tok"
  shows "first_row (\<lambda>r. session_id r = PStr tok)
           (map (\<lambda>r. if id' r = id' u then r\<lparr>session_id := PStr tok\<rparr> else r) rows)
         = Some (u\<lparr>session_id := PStr tok\<rparr>)"
proof (rule first_row_unique)
  let ?g = "\<lambda>r::user. if id' r = id' u then r\<lparr>session_id := PStr tok\<rparr> else r"
  have "?g u \<in> set (map ?g rows)" using u by (simp only: set_map) (rule imageI)
  then show "u\<lparr>session_id := PStr tok\<rparr> \<in> set (map ?g rows)" by simp
  show "session_id (u\<lparr>session_id := PStr tok\<rparr>) = PStr tok" by simp
  show "\<forall>r'\<in>set (map ?g rows). session_id r' = PStr tok \<longrightarrow> r' = u\<lparr>session_id := PStr tok\<rparr>"
  proof (intro ballI impI)
    fix r' assume "r' \<in> set (map ?g rows)" and s: "session_id r' = PStr tok"
    then obtain r where r: "r \<in> set rows" and r': "r' = ?g r" by auto
    show "r' = u\<lparr>session_id := PStr tok\<rparr>"
    proof (cases "id' r = id' u")
      case True
      with d r u have "r = u" by (simp add: same_id_same_row)
      with r' show ?thesis by simp
    next
      case False
      with fresh r have "session_id r \<noteq> PStr tok" by blast
      with False r' s show ?thesis by simp
    qed
  qed
qed

lemma destroy_session_found:
  assumes "\<exists>r\<in>set rows. id' r = n"
  shows "destroy_session L rows (Some n) =
     Inr (map (\<lambda>r. if id' r = n then r\<lparr>session_id := PNone\<rparr> else r) rows)"
  using assms by (simp add: destroy_session_def update_user_session_id)

lemma destroy_session_missing:
  assumes "\<not> (\<exists>r\<in>set rows. id' r = n)"
  shows "destroy_session L rows (Some n) = Inl NoResultFound"
  using assms by (simp add: destroy_session_def update_user_session_id)

lemma destroy_session_again:
  assumes "destroy_session L rows uid = Inr rows1"
  shows "destroy_session L rows1 uid = Inr rows1"
proof (cases uid)
  case None
  with assms show ?thesis by (simp add: destroy_session_def)
next
  case (Some n)
  let ?g = "\<lambda>r::user. if id' r = n then r\<lparr>session_id := PNone\<rparr> else r"
  show ?thesis
  proof (cases "\<exists>r\<in>set rows. id' r = n")
    case False
    with assms Some show ?thesis by (simp add: destroy_session_missing)
  next
    case True
    with assms Some have r1: "rows1 = map ?g rows" by (simp add: destroy_session_found)
    from True obtain r where "r \<in> set rows" "id' r = n" by blast
    then have "?g r \<in> set rows1" "id' (?g r) = n" by (simp_all add: r1)
    then have "\<exists>r\<in>set rows1. id' r = n" by blast
    then have "destroy_session L rows1 (Some n) = Inr (map ?g rows1)"
      by (rule destroy_session_found)
    moreover have "map ?g rows1 = rows1" by (simp add: r1)
    ultimately show ?thesis using Some by simp
  qed
qed

lemma destroy_session_idempotent:
  "table_after (table_after rows (destroy_session L rows uid))
       (destroy_session L (table_after rows (destroy_session L rows uid)) uid)
     = table_after rows (destroy_session L rows uid)"
proof (cases "destroy_session L rows uid")
  case (Inl e)
  then show ?thesis by (simp add: table_after_def)
next
  case (Inr rows1)
  from destroy_session_again[OF Inr] Inr show ?thesis by (simp add: table_after_def)
qed

lemma destroy_session_forgets:
  assumes own: "\<forall>r\<in>set rows. session_id r = PStr t \<longrightarrow> id' r = n"
    and d: "destroy_session L rows (Some n) = Inr rows'"
  shows "get_user_from_session_id L rows' (Some t) = Inr None"
proof -
  let ?g = "\<lambda>r::user. if id' r = n then r\<lparr>session_id := PNone\<rparr> else r"
  have ex: "\<exists>r\<in>set rows. id' r = n"
  proof (rule ccontr)
    assume "\<not> (\<exists>r\<in>set rows. id' r = n)"
    then have "destroy_session L rows (Some n) = Inl NoResultFound"
      by (rule destroy_session_missing)
    with d show False by simp
  qed
  with d have r1: "rows' = map ?g rows" by (simp add: destroy_session_found)
  from own have other: "\<forall>r\<in>set rows. id' r \<noteq> n \<longrightarrow> session_id r \<noteq> PStr t" by blast
  have "\<forall>r'\<in>set rows'. session_id r' \<noteq> PStr t"
  proof
    fix r' assume "r' \<in> set rows'"
    then obtain r where r: "r \<in> set rows" and r': "r' = ?g r" unfolding r1 by auto
    show "session_id r' \<noteq> PStr t"
    proof (cases "id' r = n")
      case True
      with r' show ?thesis by simp
    next
      case False
      with other r have "session_id r \<noteq> PStr t" by blast
      with False r' show ?thesis by simp
    qed
  qed
  then show ?thesis by (simp add: session_lookup first_row_None)
qed

lemma largest_id_bound: "r \<in> set rows \<Longrightarrow> id' r \<le> largest_id rows"
  by (induction rows) (auto split: if_splits)

lemma register_user_Inr:
  assumes "register_user L rows e p salt = Inr (rows', ou)"
  shows "\<exists>h. auth_hash_password L salt p = Inr h \<and> (\<forall>r\<in>set rows. email r \<noteq> PStr e)
     \<and> rows' = rows @ [\<lparr>id' = largest_id rows + 1, email = PStr e, hashed_password = PBytes h,
                          session_id = PNone, reset_token = PNone\<rparr>]
     \<and> ou = Some \<lparr>id' = largest_id rows + 1, email = PStr e, hashed_password = PBytes h,
                   session_id = PNone, reset_token = PNone\<rparr>"
proof (cases "first_row (\<lambda>r. email r = PStr e) rows")
  case (Some w)
  with assms show ?thesis by (simp add: register_user_def find_user_by_email)
next
  case None
  then have no: "\<forall>r\<in>set rows. email r \<noteq> PStr e" by (simp add: first_row_None)
  show ?thesis
  proof (cases "auth_hash_password L salt p")
    case (Inl err)
    with None assms show ?thesis by (simp add: register_user_def find_user_by_email)
  next
    case (Inr h)
    with None assms have "add_user rows (PStr e) (PBytes h) = (rows', ou)"
      by (simp add: register_user_def find_user_by_email)
    then have "rows' = rows @ [\<lparr>id' = largest_id rows + 1, email = PStr e,
          hashed_password = PBytes h, session_id = PNone, reset_token = PNone\<rparr>]
     \<and> ou = Some \<lparr>id' = largest_id rows + 1, email = PStr e, hashed_password = PBytes h,
                   session_id = PNone, reset_token = PNone\<rparr>"
      by (auto simp: add_user_def Let_def)
    with no Inr show ?thesis by simp
  qed
qed

lemma find_user_by_email_appended:
  assumes no: "\<forall>r\<in>set rows. email r \<noteq> PStr e" and em: "email u = PStr e"
  shows "find_user_by L (rows @ [u]) [(''email'', PStr e)] = Inr u"
proof -
  have "first_row (\<lambda>r. email r = PStr e) (rows @ [u]) = Some u"
  proof (rule first_row_unique)
    show "u \<in> set (rows @ [u])" by simp
    show "email u = PStr e" by (rule em)
    show "\<forall>r\<in>set (rows @ [u]). email r = PStr e \<longrightarrow> r = u" using no by auto
  qed
  then show ?thesis by (simp add: find_user_by_email)
qed

lemma register_user_stored:
  assumes "register_user L rows e p salt = Inr (rows', Some u)"
  shows "find_user_by L rows' [(''email'', PStr e)] = Inr u
     \<and> (\<exists>h. auth_hash_password L salt p = Inr h \<and> hashed_password u = PBytes h)"
proof -
  from register_user_Inr[OF assms] obtain h where
    h: "auth_hash_password L salt p = Inr h" and no: "\<forall>r\<in>set rows. email r \<noteq> PStr e"
    and rows': "rows' = rows @ [\<lparr>id' = largest_id rows + 1, email = PStr e,
          hashed_password = PBytes h, session_id = PNone, reset_token = PNone\<rparr>]"
    and u: "Some u = Some \<lparr>id' = largest_id rows + 1, email = PStr e,
          hashed_password = PBytes h, session_id = PNone, reset_token = PNone\<rparr>"
    by blast
  from u have u': "u = \<lparr>id' = largest_id rows + 1, email = PStr e,
          hashed_password = PBytes h, session_id = PNone, reset_token = PNone\<rparr>" by simp
  have em: "email u = PStr e" and hp: "hashed_password u = PBytes h" by (simp_all add: u')
  from rows' u' have "rows' = rows @ [u]" by simp
  with no em have "find_user_by L rows' [(''email'', PStr e)] = Inr u"
    by (simp add: find_user_by_email_appended)
  with h hp show ?thesis by blast
qed

lemma find_user_by_email_total:
  assumes "\<exists>r\<in>set rows. email r = PStr e"
  shows "\<exists>u. find_user_by L rows [(''email'', PStr e)] = Inr u \<and> u \<in> set rows
           \<and> email u = PStr e"
proof (cases "first_row (\<lambda>r. email r = PStr e) rows")
  case None
  then have "\<forall>r\<in>set rows. email r \<noteq> PStr e" by (simp add: first_row_None)
  with assms show ?thesis by blast
next
  case (Some w)
  then have "find_user_by L rows [(''email'', PStr e)] = Inr w"
    by (simp add: find_user_by_email)
  with first_row_Some[OF Some] show ?thesis by blast
qed

lemma find_user_by_reset_token_total:
  assumes "\<exists>r\<in>set rows. reset_token r = PStr t"
  shows "\<exists>u. find_user_by L rows [(''reset_token'', PStr t)] = Inr u \<and> u \<in> set rows
           \<and> reset_token u = PStr t"
proof (cases "first_row (\<lambda>r. reset_token r = PStr t) rows")
  case None
  then have "\<forall>r\<in>set rows. reset_token r \<noteq> PStr t" by (simp add: first_row_None)
  with assms show ?thesis by blast
next
  case (Some w)
  then have "find_user_by L rows [(''reset_token'', PStr t)] = Inr w"
    by (simp add: find_user_by_reset_token)
  with first_row_Some[OF Some] show ?thesis by blast
qed

lemma encode_utf8_ascii:
  "list_all (\<lambda>c. of_char c < (128::nat)) s \<Longrightarrow> encode_utf8 (ascii s) = Inr s"
  by (induction s) (simp_all add: ascii_def encode_code_point_def)

lemma encode_utf8_surrogate: "encode_utf8 [0xD800] = Inl UnicodeEncodeError"
  by (simp add: encode_code_point_def)

lemma auth_hash_password_ascii:
  "list_all (\<lambda>c. of_char c < (128::nat)) s \<Longrightarrow>
     auth_hash_password L salt (ascii s) = hashpw L s salt"
  by (simp add: auth_hash_password_def encode_utf8_ascii)

lemma is_valid_ascii:
  "list_all (\<lambda>c. of_char c < (128::nat)) s \<Longrightarrow> is_valid L hashed (ascii s) = checkpw L s hashed"
  by (simp add: is_valid_def encode_utf8_ascii)

lemma valid_login_missing:
  assumes "\<forall>r\<in>set rows. email r \<noteq> PStr e"
  shows "valid_login L rows e p = Inr False"
proof -
  from assms have "find_user_by L rows [(''email'', PStr e)] = Inl NoResultFound"
    by (rule find_user_by_email_missing)
  then show ?thesis by (simp add: valid_login_def except_NoResultFound_def)
qed

lemma valid_login_found:
  assumes "find_user_by L rows [(''email'', PStr e)] = Inr u"
  shows "valid_login L rows e p = except_NoResultFound (is_valid L (hashed_password u) p)"
  using assms by (simp add: valid_login_def is_valid_def)

section \<open>An invariant of the service\<close>

text \<open>
  \<open>store_ok\<close> holds of the empty table and is kept by every operation of \<^verbatim>\<open>Auth\<close>
  that writes, a drawn token being one that no row holds. In a table that is
  \<open>store_ok\<close> the ids are distinct and a reset token found for a user is held by that
  user only.
\<close>

lemma store_ok_empty: "store_ok []"
  by (simp add: store_ok_def)

lemma largest_id_fresh: "r \<in> set rows \<Longrightarrow> id' r \<noteq> largest_id rows + 1"
  using largest_id_bound[of r rows] by simp

lemma store_ok_register_user:
  assumes "register_user L rows e p salt = Inr (rows', ou)" and ok: "store_ok rows"
  shows "store_ok rows'"
proof -
  from register_user_Inr[OF assms(1)] obtain h where
    rows': "rows' = rows @ [\<lparr>id' = largest_id rows + 1, email = PStr e,
          hashed_password = PBytes h, session_id = PNone, reset_token = PNone\<rparr>]"
    by blast
  have "largest_id rows + 1 \<notin> id' ` set rows" by (auto dest: largest_id_fresh)
  with ok show ?thesis unfolding rows' store_ok_def by auto
qed


lemma unique_after_write:
  fixes tok :: "user \<Rightarrow> pyval"
  assumes old: "\<forall>r\<in>set rows. \<forall>r'\<in>set rows. tok r \<noteq> PNone \<and> tok r = tok r' \<longrightarrow> id' r = id' r'"
    and fid: "\<And>r. id' (f r) = id' r"
    and ft: "\<And>r. tok (f r) = tok r \<or> tok (f r) = PNone
               \<or> (\<forall>r'\<in>set rows. id' r' \<noteq> n \<longrightarrow> tok r' \<noteq> tok (f r))"
  shows "\<forall>a\<in>set (map (\<lambda>r. if id' r = n then f r else r) rows).
         \<forall>b\<in>set (map (\<lambda>r. if id' r = n then f r else r) rows).
           tok a \<noteq> PNone \<and> tok a = tok b \<longrightarrow> id' a = id' b"
proof (intro ballI impI)
  let ?g = "\<lambda>r::user. if id' r = n then f r else r"
  fix a b assume "a \<in> set (map ?g rows)" "b \<in> set (map ?g rows)"
    and eq: "tok a \<noteq> PNone \<and> tok a = tok b"
  then obtain r r' where r: "r \<in> set rows" "a = ?g r" and r': "r' \<in> set rows" "b = ?g r'"
    by auto
  from old r(1) r'(1) have o1: "tok r \<noteq> PNone \<and> tok r = tok r' \<longrightarrow> id' r = id' r'"
    by blast
  from old r(1) r'(1) have o2: "tok r' \<noteq> PNone \<and> tok r' = tok r \<longrightarrow> id' r' = id' r"
    by blast
  have ida: "id' a = id' r" and idb: "id' b = id' r'" using r(2) r'(2) fid by simp_all
  show "id' a = id' b"
  proof (cases "id' r = n")
    case True
    note rn = this
    show ?thesis
    proof (cases "id' r' = n")
      case True
      with rn ida idb show ?thesis by simp
    next
      case False
      from rn r(2) have a: "a = f r" by simp
      from False r'(2) have b: "b = r'" by simp
      from ft[of r] show ?thesis
      proof (elim disjE)
        assume "tok (f r) = tok r"
        with eq a b o1 ida idb show ?thesis by auto
      next
        assume "tok (f r) = PNone"
        with eq a show ?thesis by simp
      next
        assume "\<forall>r'\<in>set rows. id' r' \<noteq> n \<longrightarrow> tok r' \<noteq> tok (f r)"
        with r'(1) False have "tok r' \<noteq> tok (f r)" by blast
        with eq a b show ?thesis by simp
      qed
    qed
  next
    case False
    note rn = this
    from rn r(2) have a: "a = r" by simp
    show ?thesis
    proof (cases "id' r' = n")
      case True
      from True r'(2) have b: "b = f r'" by simp
      from ft[of r'] show ?thesis
      proof (elim disjE)
        assume "tok (f r') = tok r'"
        with eq a b o1 ida idb show ?thesis by auto
      next
        assume "tok (f r') = PNone"
        with eq b show ?thesis by simp
      next
        assume "\<forall>x\<in>set rows. id' x \<noteq> n \<longrightarrow> tok x \<noteq> tok (f r')"
        with r(1) rn have "tok r \<noteq> tok (f r')" by blast
        with eq a b show ?thesis by simp
      qed
    next
      case False
      from False r'(2) have b: "b = r'" by simp
      from eq a b o1 show ?thesis by auto
    qed
  qed
qed

lemma store_ok_write:
  assumes ok: "store_ok rows"
    and fid: "\<And>r. id' (f r) = id' r"
    and fs: "\<And>r. session_id (f r) = session_id r \<or> session_id (f r) = PNone
               \<or> (\<forall>r'\<in>set rows. id' r' \<noteq> n \<longrightarrow> session_id r' \<noteq> session_id (f r))"
    and ft: "\<And>r. reset_token (f r) = reset_token r \<or> reset_token (f r) = PNone
               \<or> (\<forall>r'\<in>set rows. id' r' \<noteq> n \<longrightarrow> reset_token r' \<noteq> reset_token (f r))"
  shows "store_ok (map (\<lambda>r. if id' r = n then f r else r) rows)"
proof -
  let ?g = "\<lambda>r::user. if id' r = n then f r else r"
  have "\<And>r. id' (?g r) = id' r" by (simp add: fid)
  then have ids: "map id' (map ?g rows) = map id' rows" by (induction rows) auto
  have d: "distinct (map id' (map ?g rows))" using ok unfolding ids by (simp add: store_ok_def)
  have os: "\<forall>r\<in>set rows. \<forall>r'\<in>set rows.
      session_id r \<noteq> PNone \<and> session_id r = session_id r' \<longrightarrow> id' r = id' r'"
    and ot: "\<forall>r\<in>set rows. \<forall>r'\<in>set rows.
      reset_token r \<noteq> PNone \<and> reset_token r = reset_token r' \<longrightarrow> id' r = id' r'"
    using ok unfolding store_ok_def by blast+
  note s = unique_after_write[where tok = session_id, OF os fid fs]
  note t = unique_after_write[where tok = reset_token, OF ot fid ft]
  from d s t show ?thesis unfolding store_ok_def by blast
qed

lemma store_ok_create_session:
  assumes c: "create_session L rows e uuid = Inr (rows', tok)" and ok: "store_ok rows"
    and fresh: "\<forall>r\<in>set rows. session_id r \<noteq> PStr uuid"
  shows "store_ok rows'"
proof (cases "find_user_by L rows [(''email'', PStr e)]")
  case (Inl err)
  with c ok show ?thesis by (cases err) (simp_all add: create_session_def)
next
  case (Inr u)
  from create_session_found[OF Inr] c
  have "rows' = map (\<lambda>r. if id' r = id' u then r\<lparr>session_id := PStr uuid\<rparr> else r) rows"
    by simp
  moreover have "store_ok (map (\<lambda>r. if id' r = id' u then r\<lparr>session_id := PStr uuid\<rparr> else r) rows)"
    using ok fresh by (intro store_ok_write) simp_all
  ultimately show ?thesis by simp
qed

lemma store_ok_destroy_session:
  assumes c: "destroy_session L rows uid = Inr rows'" and ok: "store_ok rows"
  shows "store_ok rows'"
proof (cases uid)
  case None
  with c ok show ?thesis by (simp add: destroy_session_def)
next
  case (Some n)
  show ?thesis
  proof (cases "\<exists>r\<in>set rows. id' r = n")
    case False
    with c Some show ?thesis by (simp add: destroy_session_missing)
  next
    case True
    with c Some have "rows' = map (\<lambda>r. if id' r = n then r\<lparr>session_id := PNone\<rparr> else r) rows"
      by (simp add: destroy_session_found)
    moreover have "store_ok (map (\<lambda>r. if id' r = n then r\<lparr>session_id := PNone\<rparr> else r) rows)"
      using ok by (intro store_ok_write) simp_all
    ultimately show ?thesis by simp
  qed
qed

lemma store_ok_get_reset_password_token:
  assumes c: "get_reset_password_token L rows e uuid = Inr (rows', tok)" and ok: "store_ok rows"
    and fresh: "\<forall>r\<in>set rows. reset_token r \<noteq> PStr uuid"
  shows "store_ok rows'"
proof (cases "find_user_by L rows [(''email'', PStr e)]")
  case (Inl err)
  with c show ?thesis by (cases err) (simp_all add: get_reset_password_token_def)
next
  case (Inr u)
  then have "u \<in> set rows" by (simp add: find_user_by_email_Inr)
  then have "\<exists>r\<in>set rows. id' r = id' u" by blast
  with Inr c
  have "rows' = map (\<lambda>r. if id' r = id' u then r\<lparr>reset_token := PStr uuid\<rparr> else r) rows"
    by (simp add: get_reset_password_token_def update_user_reset_token)
  moreover have "store_ok (map (\<lambda>r. if id' r = id' u then r\<lparr>reset_token := PStr uuid\<rparr> else r) rows)"
    using ok fresh by (intro store_ok_write) simp_all
  ultimately show ?thesis by simp
qed

lemma store_ok_update_password:
  assumes c: "update_password L rows t p salt = Inr rows'" and ok: "store_ok rows"
  shows "store_ok rows'"
proof (cases "find_user_by L rows [(''reset_token'', PStr t)]")
  case (Inl err)
  with c show ?thesis by (cases err) (simp_all add: update_password_def)
next
  case (Inr u)
  from update_password_Inr[OF Inr c] obtain h where
    "rows' = map (\<lambda>r. if id' r = id' u
                    then r\<lparr>hashed_password := PBytes h, reset_token := PNone\<rparr> else r) rows"
    by blast
  moreover have "store_ok (map (\<lambda>r. if id' r = id' u
                    then r\<lparr>hashed_password := PBytes h, reset_token := PNone\<rparr> else r) rows)"
    using ok by (intro store_ok_write) simp_all
  ultimately show ?thesis by simp
qed

lemma store_ok_token_owner:
  assumes ok: "store_ok rows" and f: "find_user_by L rows [(''reset_token'', PStr t)] = Inr u"
  shows "\<forall>r\<in>set rows. reset_token r = PStr t \<longrightarrow> id' r = id' u"
proof (intro ballI impI)
  fix r assume r: "r \<in> set rows" "reset_token r = PStr t"
  from f have u: "u \<in> set rows" "reset_token u = PStr t"
    by (simp_all add: find_user_by_reset_token_Inr)
  from ok r(1) u(1) have "reset_token r \<noteq> PNone \<and> reset_token r = reset_token u
      \<longrightarrow> id' r = id' u"
    unfolding store_ok_def by blast
  with r(2) u(2) show "id' r = id' u" by simp
qed

lemma store_ok_distinct: "store_ok rows \<Longrightarrow> distinct (map id' rows)"
  by (simp add: store_ok_def)

section \<open>The claims\<close>

text \<open>
  C1: when no stored user has reset\_token \<open>t\<close>, \<^verbatim>\<open>update_password\<close> raises ValueError
  (InvalidToken), before any write. When some stored user has it, the lookup by
  reset\_token gives such a user. When the lookup gives user \<open>u\<close> and
  the new password has hash \<open>h\<close>, one call of \<^verbatim>\<open>update_user\<close> sets the
  hashed\_password of \<open>u\<close> to \<open>h\<close> and its reset\_token to NULL. The token being
  held by that one user, as a generated token is, a second \<^verbatim>\<open>update_password\<close> with
  it raises ValueError: the token is consumed.
\<close>

theorem update_password_spec:
  "((\<forall>r\<in>set rows. reset_token r \<noteq> PStr t) \<longrightarrow>
      update_password L rows t p salt = Inl (ValueError [])
      \<and> table_after rows (update_password L rows t p salt) = rows)
   \<and> ((\<exists>r\<in>set rows. reset_token r = PStr t) \<longrightarrow>
      (\<exists>w. find_user_by L rows [(''reset_token'', PStr t)] = Inr w \<and> w \<in> set rows
           \<and> reset_token w = PStr t))
   \<and> (find_user_by L rows [(''reset_token'', PStr t)] = Inr u \<and>
       auth_hash_password L salt p = Inr h \<longrightarrow>
      update_password L rows t p salt =
        update_user L rows (PInt (id' u))
          [(''hashed_password'', PBytes h), (''reset_token'', PNone)]
      \<and> update_password L rows t p salt =
        Inr (map (\<lambda>r. if id' r = id' u
                       then r\<lparr>hashed_password := PBytes h, reset_token := PNone\<rparr> else r) rows))
   \<and> (find_user_by L rows [(''reset_token'', PStr t)] = Inr u \<and>
       (\<forall>r\<in>set rows. reset_token r = PStr t \<longrightarrow> id' r = id' u) \<and>
       update_password L rows t p salt = Inr rows' \<longrightarrow>
      update_password L rows' t p' salt' = Inl (ValueError []))"
proof (intro conjI impI)
  assume "\<forall>r\<in>set rows. reset_token r \<noteq> PStr t"
  then show "update_password L rows t p salt = Inl (ValueError [])"
    by (rule update_password_missing)
next
  assume "\<forall>r\<in>set rows. reset_token r \<noteq> PStr t"
  then have "update_password L rows t p salt = Inl (ValueError [])"
    by (rule update_password_missing)
  then show "table_after rows (update_password L rows t p salt) = rows"
    by (simp add: table_after_def)
next
  assume "\<exists>r\<in>set rows. reset_token r = PStr t"
  then show "\<exists>w. find_user_by L rows [(''reset_token'', PStr t)] = Inr w \<and> w \<in> set rows
           \<and> reset_token w = PStr t"
    by (rule find_user_by_reset_token_total)
next
  assume "find_user_by L rows [(''reset_token'', PStr t)] = Inr u \<and>
       auth_hash_password L salt p = Inr h"
  then show "update_password L rows t p salt =
        update_user L rows (PInt (id' u))
          [(''hashed_password'', PBytes h), (''reset_token'', PNone)]"
    by (simp add: update_password_def)
next
  assume "find_user_by L rows [(''reset_token'', PStr t)] = Inr u \<and>
       auth_hash_password L salt p = Inr h"
  then show "update_password L rows t p salt =
        Inr (map (\<lambda>r. if id' r = id' u
                       then r\<lparr>hashed_password := PBytes h, reset_token := PNone\<rparr> else r) rows)"
    by (simp add: update_password_found)
next
  assume a: "find_user_by L rows [(''reset_token'', PStr t)] = Inr u \<and>
       (\<forall>r\<in>set rows. reset_token r = PStr t \<longrightarrow> id' r = id' u) \<and>
       update_password L rows t p salt = Inr rows'"
  then obtain h where rows': "rows' = map (\<lambda>r. if id' r = id' u
                    then r\<lparr>hashed_password := PBytes h, reset_token := PNone\<rparr> else r) rows"
    using update_password_Inr by blast
  from a have only: "\<forall>r\<in>set rows. id' r \<noteq> id' u \<longrightarrow> reset_token r \<noteq> PStr t" by blast
  have "\<forall>r\<in>set rows'. reset_token r \<noteq> PStr t"
  proof
    fix r' assume "r' \<in> set rows'"
    then obtain r where r: "r \<in> set rows"
      and r': "r' = (if id' r = id' u
                    then r\<lparr>hashed_password := PBytes h, reset_token := PNone\<rparr> else r)"
      unfolding rows' by auto
    show "reset_token r' \<noteq> PStr t"
    proof (cases "id' r = id' u")
      case True
      with r' show ?thesis by simp
    next
      case False
      with only r have "reset_token r \<noteq> PStr t" by blast
      with False r' show ?thesis by simp
    qed
  qed
  then show "update_password L rows' t p' salt' = Inl (ValueError [])"
    by (rule update_password_missing)
qed

theorem update_password_spec_witness:
  "update_password instance_libs [example_user] ''tok'' (ascii ''new'') example_salt = Inl (ValueError [])
   \<and> update_password instance_libs [example_user\<lparr>reset_token := PStr ''tok''\<rparr>]
         ''tok'' (ascii ''new'') example_salt
       = Inr [example_user\<lparr>hashed_password :=
                PBytes ''$2b$12$abcdefghijklmnopqrstuvwen............................''\<rparr>]
   \<and> update_password instance_libs
         [example_user\<lparr>hashed_password :=
                PBytes ''$2b$12$abcdefghijklmnopqrstuvwen............................''\<rparr>]
         ''tok'' (ascii ''other'') example_salt
       = Inl (ValueError [])"
proof -
  let ?u = "example_user\<lparr>reset_token := PStr ''tok''\<rparr>"
  let ?h = "''$2b$12$abcdefghijklmnopqrstuvwen............................''"
  have h1: "\<forall>r\<in>set [example_user]. reset_token r \<noteq> PStr ''tok''"
    by (simp add: example_user_def)
  have h2: "find_user_by instance_libs [?u] [(''reset_token'', PStr ''tok'')] = Inr ?u"
    by (simp add: find_user_by_reset_token)
  have "hashpw instance_libs ''new'' example_salt = Inr ?h" by code_simp
  then have h3: "auth_hash_password instance_libs example_salt (ascii ''new'') = Inr ?h"
    by (simp add: auth_hash_password_ascii)
  have h4: "\<forall>r\<in>set [?u]. reset_token r = PStr ''tok'' \<longrightarrow> id' r = id' ?u"
    by simp
  note T = update_password_spec[where L = instance_libs and t = "''tok''" and p = "(ascii ''new'')"
      and salt = example_salt]
  from h1 T[where rows = "[example_user]"]
  have c1: "update_password instance_libs [example_user] ''tok'' (ascii ''new'') example_salt
      = Inl (ValueError [])"
    by blast
  from h2 h3 T[where rows = "[?u]" and u = ?u and h = ?h]
  have "update_password instance_libs [?u] ''tok'' (ascii ''new'') example_salt
      = Inr (map (\<lambda>r. if id' r = id' ?u
                       then r\<lparr>hashed_password := PBytes ?h, reset_token := PNone\<rparr> else r) [?u])"
    by blast
  then have c2: "update_password instance_libs [?u] ''tok'' (ascii ''new'') example_salt
      = Inr [example_user\<lparr>hashed_password := PBytes ?h\<rparr>]"
    by (simp add: example_user_def)
  from h2 h4 c2 T[where rows = "[?u]" and u = ?u
      and rows' = "[example_user\<lparr>hashed_password := PBytes ?h\<rparr>]"
      and p' = "(ascii ''other'')" and salt' = example_salt]
  have c3: "update_password instance_libs [example_user\<lparr>hashed_password := PBytes ?h\<rparr>]
      ''tok'' (ascii ''other'') example_salt = Inl (ValueError [])"
    by blast
  from c1 c2 c3 show ?thesis by simp
qed

text \<open>
  C2: when no stored user has email \<open>e\<close>, \<^verbatim>\<open>create_session\<close> returns \<^verbatim>\<open>None\<close> and
  leaves the table as it is. When some stored user has it, the lookup by email gives
  such a user. When the lookup gives user \<open>u\<close>, \<^verbatim>\<open>create_session\<close> returns the
  generated token and has written it as the session\_id of \<open>u\<close>; the token being fresh
  (no other user holds it) and \<^verbatim>\<open>id\<close> being the primary key,
  \<^verbatim>\<open>get_user_from_session_id\<close> of the token then returns that user \<open>u\<close>, as stored.
\<close>

theorem create_session_spec:
  "((\<forall>r\<in>set rows. email r \<noteq> PStr e) \<longrightarrow> create_session L rows e uuid = Inr (rows, None))
   \<and> ((\<exists>r\<in>set rows. email r = PStr e) \<longrightarrow>
      (\<exists>w. find_user_by L rows [(''email'', PStr e)] = Inr w \<and> w \<in> set rows
           \<and> email w = PStr e))
   \<and> (find_user_by L rows [(''email'', PStr e)] = Inr u \<and>
       distinct (map id' rows) \<and>
       (\<forall>r\<in>set rows. id' r \<noteq> id' u \<longrightarrow> session_id r \<noteq> PStr uuid) \<longrightarrow>
      (\<exists>rows'. create_session L rows e uuid = Inr (rows', Some uuid)
         \<and> rows' = map (\<lambda>r. if id' r = id' u then r\<lparr>session_id := PStr uuid\<rparr> else r) rows
         \<and> u\<lparr>session_id := PStr uuid\<rparr> \<in> set rows'
         \<and> get_user_from_session_id L rows' (Some uuid)
             = Inr (Some (u\<lparr>session_id := PStr uuid\<rparr>))))"
proof (intro conjI impI)
  assume "\<forall>r\<in>set rows. email r \<noteq> PStr e"
  then show "create_session L rows e uuid = Inr (rows, None)"
    by (rule create_session_missing)
next
  assume "\<exists>r\<in>set rows. email r = PStr e"
  then show "\<exists>w. find_user_by L rows [(''email'', PStr e)] = Inr w \<and> w \<in> set rows
           \<and> email w = PStr e"
    by (rule find_user_by_email_total)
next
  assume a: "find_user_by L rows [(''email'', PStr e)] = Inr u \<and>
       distinct (map id' rows) \<and>
       (\<forall>r\<in>set rows. id' r \<noteq> id' u \<longrightarrow> session_id r \<noteq> PStr uuid)"
  let ?rows' = "map (\<lambda>r. if id' r = id' u then r\<lparr>session_id := PStr uuid\<rparr> else r) rows"
  from a have u: "u \<in> set rows" using find_user_by_email_Inr by blast
  from a have c: "create_session L rows e uuid = Inr (?rows', Some uuid)"
    by (simp add: create_session_found)
  from a u have fr: "first_row (\<lambda>r. session_id r = PStr uuid) ?rows'
       = Some (u\<lparr>session_id := PStr uuid\<rparr>)"
    by (simp add: session_lookup_after_write)
  then have m: "u\<lparr>session_id := PStr uuid\<rparr> \<in> set ?rows'"
    by (blast dest: first_row_Some)
  from fr have "get_user_from_session_id L ?rows' (Some uuid)
             = Inr (Some (u\<lparr>session_id := PStr uuid\<rparr>))"
    by (simp add: get_user_from_session_id_def find_user_by_session_id)
  with c m show "\<exists>rows'. create_session L rows e uuid = Inr (rows', Some uuid)
         \<and> rows' = map (\<lambda>r. if id' r = id' u then r\<lparr>session_id := PStr uuid\<rparr> else r) rows
         \<and> u\<lparr>session_id := PStr uuid\<rparr> \<in> set rows'
         \<and> get_user_from_session_id L rows' (Some uuid)
             = Inr (Some (u\<lparr>session_id := PStr uuid\<rparr>))"
    by blast
qed

theorem create_session_spec_witness:
  "create_session instance_libs [example_user] ''guillaume@hbtn.io'' ''5a006849''
     = Inr ([example_user], None)
   \<and> create_session instance_libs [example_user] ''bob@hbtn.io'' ''5a006849''
     = Inr ([example_user\<lparr>session_id := PStr ''5a006849''\<rparr>], Some ''5a006849'')
   \<and> get_user_from_session_id instance_libs
         [example_user\<lparr>session_id := PStr ''5a006849''\<rparr>] (Some ''5a006849'')
     = Inr (Some (example_user\<lparr>session_id := PStr ''5a006849''\<rparr>))"
proof -
  have h1: "\<forall>r\<in>set [example_user]. email r \<noteq> PStr ''guillaume@hbtn.io''"
    by (simp add: example_user_def)
  have h2: "find_user_by instance_libs [example_user] [(''email'', PStr ''bob@hbtn.io'')]
      = Inr example_user"
    by (simp add: find_user_by_email example_user_def)
  have h3: "distinct (map id' [example_user])" by simp
  have h4: "\<forall>r\<in>set [example_user]. id' r \<noteq> id' example_user \<longrightarrow>
      session_id r \<noteq> PStr ''5a006849''"
    by simp
  note T = create_session_spec[where L = instance_libs and rows = "[example_user]"
      and uuid = "''5a006849''"]
  from h1 T[where e = "''guillaume@hbtn.io''"]
  have c1: "create_session instance_libs [example_user] ''guillaume@hbtn.io'' ''5a006849''
     = Inr ([example_user], None)"
    by blast
  from h2 h3 h4 T[where e = "''bob@hbtn.io''" and u = example_user]
  have c2: "\<exists>rows'. create_session instance_libs [example_user] ''bob@hbtn.io'' ''5a006849''
       = Inr (rows', Some ''5a006849'')
     \<and> rows' = map (\<lambda>r. if id' r = id' example_user
                            then r\<lparr>session_id := PStr ''5a006849''\<rparr> else r) [example_user]
     \<and> example_user\<lparr>session_id := PStr ''5a006849''\<rparr> \<in> set rows'
     \<and> get_user_from_session_id instance_libs rows' (Some ''5a006849'')
         = Inr (Some (example_user\<lparr>session_id := PStr ''5a006849''\<rparr>))"
    by blast
  from c1 c2 show ?thesis by simp
qed

text \<open>
  C4, as it is written: a criteria field outside id, email, session\_id, reset\_token makes
  \<^verbatim>\<open>find_user_by\<close> fail with InvalidRequestError. The code tests
  \<^verbatim>\<open>hasattr(User, key)\<close>, and \<^verbatim>\<open>hashed_password\<close> is a column of \<^verbatim>\<open>User\<close>: a
  lookup by \<^verbatim>\<open>hashed_password\<close> is answered with the matching row.
\<close>

theorem find_user_by_hashed_password_counterexample:
  "''hashed_password'' \<notin> {''id'', ''email'', ''session_id'', ''reset_token''}
   \<and> find_user_by instance_libs [example_user]
        [(''hashed_password'',
          PBytes ''$2b$12$abcdefghijklmnopqrstuvdrowssap.......................'')]
       = Inr example_user"
  by (simp add: find_user_by_def getattr_User_def query_first_def sql_eq_def example_user_def)

text \<open>
  C4, amended: when some criteria field name is not an attribute of class \<^verbatim>\<open>User\<close>,
  \<^verbatim>\<open>find_user_by\<close> fails with InvalidRequestError, whatever the table holds and
  whatever the other criteria are. The attributes are the five columns, id, email,
  hashed\_password, session\_id and reset\_token, and the names the class has from its
  base.
\<close>

theorem find_user_by_invalid_attribute:
  "((\<exists>(k, v) \<in> set kwargs. \<not> hasattr_User L k) \<longrightarrow>
       find_user_by L rows kwargs = Inl InvalidRequestError)
   \<and> hasattr_User L key =
       (key \<in> {''id'', ''email'', ''hashed_password'', ''session_id'', ''reset_token''}
        \<or> other_attr L key)"
proof (intro conjI impI)
  assume "\<exists>(k, v) \<in> set kwargs. \<not> hasattr_User L k"
  then obtain k v where "(k, v) \<in> set kwargs" "getattr_User L k = None"
    by (auto simp: hasattr_User_def)
  then have "collect_fields L kwargs = Inl InvalidRequestError"
    by (rule collect_fields_missing)
  then show "find_user_by L rows kwargs = Inl InvalidRequestError"
    by (simp add: find_user_by_def)
next
  show "hasattr_User L key =
       (key \<in> {''id'', ''email'', ''hashed_password'', ''session_id'', ''reset_token''}
        \<or> other_attr L key)"
    by (simp add: hasattr_User_def getattr_User_def)
qed

theorem find_user_by_invalid_attribute_witness:
  "(\<exists>(k, v) \<in> set [(''email'', PStr ''bob@hbtn.io''), (''no_name'', PStr ''test'')].
      \<not> hasattr_User instance_libs k)
   \<and> find_user_by instance_libs [example_user]
        [(''email'', PStr ''bob@hbtn.io''), (''no_name'', PStr ''test'')]
       = Inl InvalidRequestError"
proof -
  have h: "\<exists>(k, v) \<in> set [(''email'', PStr ''bob@hbtn.io''), (''no_name'', PStr ''test'')].
      \<not> hasattr_User instance_libs k"
    by (simp add: hasattr_User_def getattr_User_def instance_libs_def)
  from h find_user_by_invalid_attribute
         [of "[(''email'', PStr ''bob@hbtn.io''), (''no_name'', PStr ''test'')]"
             instance_libs "[example_user]"]
  show ?thesis by blast
qed

text \<open>
  C5: after \<^verbatim>\<open>register_user(e, p)\<close> has returned user \<open>u\<close>, a second
  \<^verbatim>\<open>register_user(e, p2)\<close> raises ValueError (AlreadyExists) and leaves the table as it
  is: the user stored for \<open>e\<close> is still \<open>u\<close>, whose hashed\_password is the hash of
  \<open>p\<close>.
\<close>

theorem register_user_twice:
  "register_user L rows e p salt = Inr (rows', Some u) \<longrightarrow>
     register_user L rows' e p2 salt2 = Inl (ValueError (''User '' @ e @ '' already exists''))
     \<and> table_after rows' (map_sum (\<lambda>err. err) fst (register_user L rows' e p2 salt2)) = rows'
     \<and> find_user_by L rows' [(''email'', PStr e)] = Inr u
     \<and> (\<exists>h. auth_hash_password L salt p = Inr h \<and> hashed_password u = PBytes h)"
proof
  assume a: "register_user L rows e p salt = Inr (rows', Some u)"
  from register_user_stored[OF a] have f: "find_user_by L rows' [(''email'', PStr e)] = Inr u"
    and h: "\<exists>h. auth_hash_password L salt p = Inr h \<and> hashed_password u = PBytes h"
    by simp_all
  from f have r2: "register_user L rows' e p2 salt2
      = Inl (ValueError (''User '' @ e @ '' already exists''))"
    by (simp add: register_user_def)
  then have "table_after rows' (map_sum (\<lambda>err. err) fst (register_user L rows' e p2 salt2)) = rows'"
    by (simp add: table_after_def)
  with r2 f h show "register_user L rows' e p2 salt2 = Inl (ValueError (''User '' @ e @ '' already exists''))
     \<and> table_after rows' (map_sum (\<lambda>err. err) fst (register_user L rows' e p2 salt2)) = rows'
     \<and> find_user_by L rows' [(''email'', PStr e)] = Inr u
     \<and> (\<exists>h. auth_hash_password L salt p = Inr h \<and> hashed_password u = PBytes h)"
    by blast
qed

theorem register_user_twice_witness:
  "register_user instance_libs [] ''bob@hbtn.io'' (ascii ''password'') example_salt
     = Inr ([example_user], Some example_user)
   \<and> register_user instance_libs [example_user] ''bob@hbtn.io'' (ascii ''other'') example_salt
     = Inl (ValueError ''User bob@hbtn.io already exists'')
   \<and> find_user_by instance_libs [example_user] [(''email'', PStr ''bob@hbtn.io'')]
     = Inr example_user
   \<and> hashed_password example_user
     = PBytes ''$2b$12$abcdefghijklmnopqrstuvdrowssap.......................''"
proof -
  have "hashpw instance_libs ''password'' example_salt
     = Inr ''$2b$12$abcdefghijklmnopqrstuvdrowssap.......................''"
    by code_simp
  then have k: "auth_hash_password instance_libs example_salt (ascii ''password'')
     = Inr ''$2b$12$abcdefghijklmnopqrstuvdrowssap.......................''"
    by (simp add: auth_hash_password_ascii)
  have f: "find_user_by instance_libs [] [(''email'', PStr ''bob@hbtn.io'')] = Inl NoResultFound"
    by (simp add: find_user_by_email)
  from f k have h: "register_user instance_libs [] ''bob@hbtn.io'' (ascii ''password'') example_salt
     = Inr ([example_user], Some example_user)"
    by (simp add: register_user_def add_user_def Let_def example_user_def)
  from h register_user_twice[where L = instance_libs and rows = "[]" and e = "''bob@hbtn.io''"
      and p = "(ascii ''password'')" and salt = example_salt and rows' = "[example_user]"
      and u = example_user and ?p2.0 = "(ascii ''other'')" and ?salt2.0 = example_salt]
  have c: "register_user instance_libs [example_user] ''bob@hbtn.io'' (ascii ''other'') example_salt
        = Inl (ValueError (''User '' @ ''bob@hbtn.io'' @ '' already exists''))
     \<and> find_user_by instance_libs [example_user] [(''email'', PStr ''bob@hbtn.io'')]
        = Inr example_user"
    by blast
  from h c show ?thesis by (simp add: example_user_def)
qed

text \<open>
  C6, as it is written: \<^verbatim>\<open>is_valid\<close> never raises and answers \<^verbatim>\<open>False\<close> on a malformed
  hash. The code calls \<^verbatim>\<open>bcrypt.checkpw\<close> with no handler around it, and
  \<^verbatim>\<open>checkpw\<close> refuses a hash that has no salt in it with ValueError.
\<close>

theorem is_valid_malformed_counterexample:
  "is_valid instance_libs (PBytes ''not-a-bcrypt-hash'') (ascii ''password'')
     = Inl (ValueError ''Invalid salt'')"
proof -
  have "checkpw instance_libs ''password'' (PBytes ''not-a-bcrypt-hash'')
     = Inl (ValueError ''Invalid salt'')"
    by code_simp
  then show ?thesis by (simp add: is_valid_ascii)
qed

text \<open>
  C6, amended. \<^verbatim>\<open>is_valid(h, p)\<close> raises UnicodeEncodeError when \<open>p\<close> has no UTF-8
  encoding; otherwise it is \<^verbatim>\<open>bcrypt.checkpw\<close> on the UTF-8 bytes of \<open>p\<close> and on
  \<open>h\<close>: every error of \<^verbatim>\<open>checkpw\<close>, that on a malformed hash included, is raised to
  the caller, and \<^verbatim>\<open>False\<close> is returned only when \<^verbatim>\<open>checkpw\<close> returned it.
  \<^verbatim>\<open>valid_login\<close> returns \<^verbatim>\<open>False\<close> when no user has the email; when the lookup
  gives user \<open>u\<close> it is \<^verbatim>\<open>is_valid\<close> on the stored hash of \<open>u\<close>, except that a
  NoResultFound raised there becomes \<^verbatim>\<open>False\<close>: every other error is raised to the
  caller, and \<^verbatim>\<open>False\<close> is returned in no other case.
\<close>

theorem is_valid_propagates:
  "is_valid L hashed p =
     (case encode_utf8 p of Inl err \<Rightarrow> Inl err | Inr pw \<Rightarrow> checkpw L pw hashed)
   \<and> (encode_utf8 p = Inr pw \<and> checkpw L pw hashed = Inl err \<longrightarrow>
        is_valid L hashed p = Inl err)
   \<and> (is_valid L hashed p = Inr False \<longrightarrow>
        (\<exists>pw'. encode_utf8 p = Inr pw' \<and> checkpw L pw' hashed = Inr False))
   \<and> ((\<forall>r\<in>set rows. email r \<noteq> PStr e) \<longrightarrow> valid_login L rows e p = Inr False)
   \<and> (find_user_by L rows [(''email'', PStr e)] = Inr u \<longrightarrow>
        valid_login L rows e p =
          (case is_valid L (hashed_password u) p of
             Inl NoResultFound \<Rightarrow> Inr False | Inl err' \<Rightarrow> Inl err' | Inr b \<Rightarrow> Inr b))
   \<and> (find_user_by L rows [(''email'', PStr e)] = Inr u \<and>
       is_valid L (hashed_password u) p = Inl err \<and> err \<noteq> NoResultFound \<longrightarrow>
        valid_login L rows e p = Inl err)
   \<and> (valid_login L rows e p = Inr False \<longrightarrow>
        (\<forall>r\<in>set rows. email r \<noteq> PStr e)
        \<or> (\<exists>w. find_user_by L rows [(''email'', PStr e)] = Inr w
              \<and> (is_valid L (hashed_password w) p = Inr False
                   \<or> is_valid L (hashed_password w) p = Inl NoResultFound)))"
proof (intro conjI impI)
  show "is_valid L hashed p =
     (case encode_utf8 p of Inl err \<Rightarrow> Inl err | Inr pw \<Rightarrow> checkpw L pw hashed)"
    by (simp add: is_valid_def)
next
  assume "encode_utf8 p = Inr pw \<and> checkpw L pw hashed = Inl err"
  then show "is_valid L hashed p = Inl err" by (simp add: is_valid_def)
next
  assume "is_valid L hashed p = Inr False"
  then show "\<exists>pw'. encode_utf8 p = Inr pw' \<and> checkpw L pw' hashed = Inr False"
    by (cases "encode_utf8 p") (simp_all add: is_valid_def)
next
  assume "\<forall>r\<in>set rows. email r \<noteq> PStr e"
  then show "valid_login L rows e p = Inr False" by (rule valid_login_missing)
next
  assume "find_user_by L rows [(''email'', PStr e)] = Inr u"
  then show "valid_login L rows e p =
          (case is_valid L (hashed_password u) p of
             Inl NoResultFound \<Rightarrow> Inr False | Inl err' \<Rightarrow> Inl err' | Inr b \<Rightarrow> Inr b)"
    by (simp add: valid_login_found except_NoResultFound_def)
next
  assume a: "find_user_by L rows [(''email'', PStr e)] = Inr u \<and>
       is_valid L (hashed_password u) p = Inl err \<and> err \<noteq> NoResultFound"
  then have "valid_login L rows e p = except_NoResultFound (Inl err)"
    by (simp add: valid_login_found)
  with a show "valid_login L rows e p = Inl err"
    by (cases err) (simp_all add: except_NoResultFound_def)
next
  assume f: "valid_login L rows e p = Inr False"
  show "(\<forall>r\<in>set rows. email r \<noteq> PStr e)
        \<or> (\<exists>w. find_user_by L rows [(''email'', PStr e)] = Inr w
              \<and> (is_valid L (hashed_password w) p = Inr False
                   \<or> is_valid L (hashed_password w) p = Inl NoResultFound))"
  proof (cases "\<exists>r\<in>set rows. email r = PStr e")
    case False
    then show ?thesis by blast
  next
    case True
    then obtain w where w: "find_user_by L rows [(''email'', PStr e)] = Inr w"
      using find_user_by_email_total by blast
    with f have x: "except_NoResultFound (is_valid L (hashed_password w) p) = Inr False"
      by (simp add: valid_login_found)
    have "is_valid L (hashed_password w) p = Inr False
        \<or> is_valid L (hashed_password w) p = Inl NoResultFound"
    proof (cases "is_valid L (hashed_password w) p")
      case (Inl err')
      with x show ?thesis by (cases err') (simp_all add: except_NoResultFound_def)
    next
      case (Inr b)
      with x show ?thesis by (simp add: except_NoResultFound_def)
    qed
    with w show ?thesis by blast
  qed
qed

theorem is_valid_propagates_witness:
  "is_valid instance_libs (PBytes ''not-a-bcrypt-hash'') (ascii ''password'')
     = Inl (ValueError ''Invalid salt'')
   \<and> is_valid instance_libs (PBytes ''not-a-bcrypt-hash'') [0xD800] = Inl UnicodeEncodeError
   \<and> (\<exists>pw'. encode_utf8 (ascii ''password'') = Inr pw'
         \<and> checkpw instance_libs pw'
              (PBytes ''$2b$06$DCq7YPn5Rq63x1Lad4cll.TV4S6ytwfsfvkgY8jIucDrjc8deX1s.'')
            = Inr False)
   \<and> valid_login instance_libs [example_user] ''guillaume@hbtn.io'' (ascii ''password'')
     = Inr False
   \<and> valid_login instance_libs
        [example_user\<lparr>hashed_password := PBytes ''not-a-bcrypt-hash''\<rparr>]
        ''bob@hbtn.io'' (ascii ''password'')
     = Inl (ValueError ''Invalid salt'')"
proof -
  let ?bad = "PBytes ''not-a-bcrypt-hash''"
  let ?good = "PBytes ''$2b$06$DCq7YPn5Rq63x1Lad4cll.TV4S6ytwfsfvkgY8jIucDrjc8deX1s.''"
  let ?u = "example_user\<lparr>hashed_password := ?bad\<rparr>"
  have e1: "encode_utf8 (ascii ''password'') = Inr ''password''"
    by (simp add: encode_utf8_ascii)
  have e2: "encode_utf8 [0xD800] = Inl UnicodeEncodeError" by (rule encode_utf8_surrogate)
  have k1: "checkpw instance_libs ''password'' ?bad = Inl (ValueError ''Invalid salt'')"
    by code_simp
  have "checkpw instance_libs ''password'' ?good = Inr False" by code_simp
  then have k2: "is_valid instance_libs ?good (ascii ''password'') = Inr False"
    by (simp add: is_valid_ascii)
  have h1: "\<forall>r\<in>set [example_user]. email r \<noteq> PStr ''guillaume@hbtn.io''"
    by (simp add: example_user_def)
  have h2: "find_user_by instance_libs [?u] [(''email'', PStr ''bob@hbtn.io'')] = Inr ?u"
    by (simp add: find_user_by_email example_user_def)
  have h3: "ValueError ''Invalid salt'' \<noteq> NoResultFound" by simp
  from e1 k1 is_valid_propagates[where L = instance_libs and hashed = ?bad
      and p = "ascii ''password''" and pw = "''password''"
      and err = "ValueError ''Invalid salt''"]
  have c1: "is_valid instance_libs ?bad (ascii ''password'') = Inl (ValueError ''Invalid salt'')"
    by blast
  from is_valid_propagates[where L = instance_libs and hashed = ?bad and p = "[0xD800]"]
  have "is_valid instance_libs ?bad [0xD800] =
     (case encode_utf8 [0xD800] of Inl err \<Rightarrow> Inl err
      | Inr pw \<Rightarrow> checkpw instance_libs pw ?bad)"
    by blast
  with e2 have c2: "is_valid instance_libs ?bad [0xD800] = Inl UnicodeEncodeError" by simp
  from k2 is_valid_propagates[where L = instance_libs and hashed = ?good
      and p = "ascii ''password''"]
  have c3: "\<exists>pw'. encode_utf8 (ascii ''password'') = Inr pw'
         \<and> checkpw instance_libs pw' ?good = Inr False"
    by blast
  from h1 is_valid_propagates[where L = instance_libs and rows = "[example_user]"
      and e = "''guillaume@hbtn.io''" and p = "ascii ''password''"]
  have c4: "valid_login instance_libs [example_user] ''guillaume@hbtn.io'' (ascii ''password'')
      = Inr False"
    by blast
  have hp: "hashed_password ?u = ?bad" by simp
  from h2 h3 c1 hp is_valid_propagates[where L = instance_libs and rows = "[?u]"
      and e = "''bob@hbtn.io''" and u = ?u and p = "ascii ''password''"
      and err = "ValueError ''Invalid salt''"]
  have c5: "valid_login instance_libs [?u] ''bob@hbtn.io'' (ascii ''password'')
      = Inl (ValueError ''Invalid salt'')"
    by metis
  from c1 c2 c3 c4 c5 show ?thesis by blast
qed

text \<open>
  C7, as it is written: for the empty string \<^verbatim>\<open>get_user_from_session_id\<close> returns
  \<^verbatim>\<open>None\<close> without a lookup. The code tests \<^verbatim>\<open>session_id is None\<close> only: the empty
  string is looked up like any token, and a row whose session\_id is the empty string is
  returned.
\<close>

theorem get_user_from_session_id_empty_counterexample:
  "get_user_from_session_id instance_libs [example_user\<lparr>session_id := PStr []\<rparr>] (Some [])
     = Inr (Some (example_user\<lparr>session_id := PStr []\<rparr>))"
  by (simp add: get_user_from_session_id_def find_user_by_def getattr_User_def
        query_first_def sql_eq_def example_user_def)

text \<open>
  C7, amended: for \<^verbatim>\<open>None\<close> the result is \<^verbatim>\<open>None\<close> whatever the table holds (the
  store is not consulted). For every string, the empty one included, the result is the
  first user whose session\_id equals the string, and \<^verbatim>\<open>None\<close> exactly when no user
  has that session\_id.
\<close>

theorem get_user_from_session_id_spec:
  "get_user_from_session_id L rows None = Inr None
   \<and> get_user_from_session_id L rows (Some t) =
       Inr (first_row (\<lambda>r. session_id r = PStr t) rows)
   \<and> ((get_user_from_session_id L rows (Some t) = Inr None) =
        (\<forall>r\<in>set rows. session_id r \<noteq> PStr t))"
  by (simp add: session_lookup first_row_None) (simp add: get_user_from_session_id_def)

theorem get_user_from_session_id_spec_witness:
  "session_id example_user \<noteq> PStr ''no-such-session''
   \<and> get_user_from_session_id instance_libs [example_user] (Some ''no-such-session'')
       = Inr None"
proof -
  have h: "\<forall>r\<in>set [example_user]. session_id r \<noteq> PStr ''no-such-session''"
    by (simp add: example_user_def)
  from h get_user_from_session_id_spec
         [of instance_libs "[example_user]" "''no-such-session''"]
  show ?thesis by simp
qed

text \<open>
  C8: when no stored user has email \<open>e\<close>, \<^verbatim>\<open>get_reset_password_token\<close> raises
  ValueError (NotFound). When some stored user has it, the lookup by email gives such a
  user. When the lookup gives user \<open>u\<close>, \<^verbatim>\<open>get_reset_password_token\<close> takes the
  generated token, writes it as the reset\_token of \<open>u\<close> and returns it.
\<close>

theorem get_reset_password_token_spec:
  "((\<forall>r\<in>set rows. email r \<noteq> PStr e) \<longrightarrow>
      get_reset_password_token L rows e uuid = Inl (ValueError []))
   \<and> ((\<exists>r\<in>set rows. email r = PStr e) \<longrightarrow>
      (\<exists>w. find_user_by L rows [(''email'', PStr e)] = Inr w \<and> w \<in> set rows
           \<and> email w = PStr e))
   \<and> (find_user_by L rows [(''email'', PStr e)] = Inr u \<longrightarrow>
      get_reset_password_token L rows e uuid =
        Inr (map (\<lambda>r. if id' r = id' u then r\<lparr>reset_token := PStr uuid\<rparr> else r) rows, uuid))"
proof (intro conjI impI)
  assume "\<forall>r\<in>set rows. email r \<noteq> PStr e"
  then have "find_user_by L rows [(''email'', PStr e)] = Inl NoResultFound"
    by (rule find_user_by_email_missing)
  then show "get_reset_password_token L rows e uuid = Inl (ValueError [])"
    by (simp add: get_reset_password_token_def)
next
  assume "\<exists>r\<in>set rows. email r = PStr e"
  then show "\<exists>w. find_user_by L rows [(''email'', PStr e)] = Inr w \<and> w \<in> set rows
           \<and> email w = PStr e"
    by (rule find_user_by_email_total)
next
  assume f: "find_user_by L rows [(''email'', PStr e)] = Inr u"
  then have "u \<in> set rows" by (simp add: find_user_by_email_Inr)
  then have "\<exists>r\<in>set rows. id' r = id' u" by blast
  with f show "get_reset_password_token L rows e uuid =
        Inr (map (\<lambda>r. if id' r = id' u then r\<lparr>reset_token := PStr uuid\<rparr> else r) rows, uuid)"
    by (simp add: get_reset_password_token_def update_user_reset_token)
qed

theorem get_reset_password_token_spec_witness:
  "email example_user \<noteq> PStr ''guillaume@hbtn.io''
   \<and> get_reset_password_token instance_libs [example_user] ''guillaume@hbtn.io'' ''4ca5bb1f''
       = Inl (ValueError [])
   \<and> find_user_by instance_libs [example_user] [(''email'', PStr ''bob@hbtn.io'')]
       = Inr example_user
   \<and> get_reset_password_token instance_libs [example_user] ''bob@hbtn.io'' ''4ca5bb1f''
       = Inr ([example_user\<lparr>reset_token := PStr ''4ca5bb1f''\<rparr>], ''4ca5bb1f'')"
proof -
  have h1: "\<forall>r\<in>set [example_user]. email r \<noteq> PStr ''guillaume@hbtn.io''"
    by (simp add: example_user_def)
  have h2: "find_user_by instance_libs [example_user] [(''email'', PStr ''bob@hbtn.io'')]
      = Inr example_user"
    by (simp add: find_user_by_email example_user_def)
  from h1 get_reset_password_token_spec
         [of "[example_user]" "''guillaume@hbtn.io''" instance_libs "''4ca5bb1f''"]
  have c1: "get_reset_password_token instance_libs [example_user] ''guillaume@hbtn.io''
      ''4ca5bb1f'' = Inl (ValueError [])"
    by blast
  from h2 get_reset_password_token_spec
         [of "[example_user]" "''bob@hbtn.io''" instance_libs "''4ca5bb1f''" example_user]
  have c2: "get_reset_password_token instance_libs [example_user] ''bob@hbtn.io'' ''4ca5bb1f''
      = Inr ([example_user\<lparr>reset_token := PStr ''4ca5bb1f''\<rparr>], ''4ca5bb1f'')"
    by simp
  from h1 h2 c1 c2 show ?thesis by simp
qed

text \<open>
  C9: \<^verbatim>\<open>destroy_session(None)\<close> changes nothing. For the id of a stored user it sets
  that user's session\_id to NULL. It is idempotent: a second call after a first one
  that returned returns the same table, and for every argument the table left by two
  calls is the table left by one (for an id that no user has, both calls raise
  NoResultFound and write nothing). After \<^verbatim>\<open>destroy_session\<close> of a user,
  \<^verbatim>\<open>get_user_from_session_id\<close> of a token that was that user's returns \<^verbatim>\<open>None\<close>.
\<close>

theorem destroy_session_spec:
  "destroy_session L rows None = Inr rows
   \<and> ((\<exists>r\<in>set rows. id' r = n) \<longrightarrow>
        destroy_session L rows (Some n) =
          Inr (map (\<lambda>r. if id' r = n then r\<lparr>session_id := PNone\<rparr> else r) rows))
   \<and> (destroy_session L rows uid = Inr rows1 \<longrightarrow> destroy_session L rows1 uid = Inr rows1)
   \<and> table_after (table_after rows (destroy_session L rows uid))
         (destroy_session L (table_after rows (destroy_session L rows uid)) uid)
       = table_after rows (destroy_session L rows uid)
   \<and> ((\<forall>r\<in>set rows. session_id r = PStr t \<longrightarrow> id' r = n) \<and>
       destroy_session L rows (Some n) = Inr rows' \<longrightarrow>
        get_user_from_session_id L rows' (Some t) = Inr None)"
proof (intro conjI impI)
  show "destroy_session L rows None = Inr rows" by (simp add: destroy_session_def)
next
  assume "\<exists>r\<in>set rows. id' r = n"
  then show "destroy_session L rows (Some n) =
          Inr (map (\<lambda>r. if id' r = n then r\<lparr>session_id := PNone\<rparr> else r) rows)"
    by (rule destroy_session_found)
next
  assume "destroy_session L rows uid = Inr rows1"
  then show "destroy_session L rows1 uid = Inr rows1" by (rule destroy_session_again)
next
  show "table_after (table_after rows (destroy_session L rows uid))
         (destroy_session L (table_after rows (destroy_session L rows uid)) uid)
       = table_after rows (destroy_session L rows uid)"
    by (rule destroy_session_idempotent)
next
  assume "(\<forall>r\<in>set rows. session_id r = PStr t \<longrightarrow> id' r = n) \<and>
       destroy_session L rows (Some n) = Inr rows'"
  then show "get_user_from_session_id L rows' (Some t) = Inr None"
    using destroy_session_forgets by blast
qed

theorem destroy_session_spec_witness:
  "destroy_session instance_libs [example_user\<lparr>session_id := PStr ''5a006849''\<rparr>] (Some 1)
     = Inr [example_user]
   \<and> destroy_session instance_libs [example_user] (Some 1) = Inr [example_user]
   \<and> get_user_from_session_id instance_libs [example_user] (Some ''5a006849'') = Inr None"
proof -
  let ?u = "example_user\<lparr>session_id := PStr ''5a006849''\<rparr>"
  have h1: "\<exists>r\<in>set [?u]. id' r = 1" by (simp add: example_user_def)
  have h2: "\<forall>r\<in>set [?u]. session_id r = PStr ''5a006849'' \<longrightarrow> id' r = 1"
    by (simp add: example_user_def)
  note T = destroy_session_spec[where L = instance_libs and rows = "[?u]" and n = 1
      and uid = "Some 1" and ?rows1.0 = "[example_user]" and rows' = "[example_user]"
      and t = "''5a006849''"]
  from h1 T have c1: "destroy_session instance_libs [?u] (Some 1) = Inr [example_user]"
    by (simp add: example_user_def)
  from c1 T have c2: "destroy_session instance_libs [example_user] (Some 1) = Inr [example_user]"
    by blast
  from h2 c1 T
  have c3: "get_user_from_session_id instance_libs [example_user] (Some ''5a006849'') = Inr None"
    by blast
  from c1 c2 c3 show ?thesis by simp
qed

text \<open>
  C10: a successful \<^verbatim>\<open>update_password\<close> for the token of user \<open>u\<close> keeps the id,
  email and session\_id of every row and changes no row other than those of \<open>u\<close>'s id;
  so every session token that resolved to a user before still resolves to that user
  afterwards.
\<close>

theorem update_password_frame:
  "find_user_by L rows [(''reset_token'', PStr t)] = Inr u \<and>
   update_password L rows t p salt = Inr rows' \<longrightarrow>
     list_all2 (\<lambda>r r'. id' r' = id' r \<and> email r' = email r \<and> session_id r' = session_id r
                  \<and> (id' r \<noteq> id' u \<longrightarrow> r' = r)) rows rows'
     \<and> (\<forall>s v. get_user_from_session_id L rows s = Inr (Some v) \<longrightarrow>
           (\<exists>v'. get_user_from_session_id L rows' s = Inr (Some v') \<and> id' v' = id' v
                \<and> email v' = email v \<and> session_id v' = session_id v))"
proof (intro impI)
  assume a: "find_user_by L rows [(''reset_token'', PStr t)] = Inr u \<and>
   update_password L rows t p salt = Inr rows'"
  then obtain h where rows': "rows' = map (\<lambda>r. if id' r = id' u
                    then r\<lparr>hashed_password := PBytes h, reset_token := PNone\<rparr> else r) rows"
    using update_password_Inr by blast
  define g where "g = (\<lambda>r::user. if id' r = id' u
                    then r\<lparr>hashed_password := PBytes h, reset_token := PNone\<rparr> else r)"
  have rg: "rows' = map g rows" by (simp add: rows' g_def)
  have gid: "\<And>r. id' (g r) = id' r" by (simp add: g_def)
  have gem: "\<And>r. email (g r) = email r" by (simp add: g_def)
  have gse: "\<And>r. session_id (g r) = session_id r" by (simp add: g_def)
  have gne: "\<And>r. id' r \<noteq> id' u \<Longrightarrow> g r = r" by (simp add: g_def)
  have frame: "list_all2 (\<lambda>r r'. id' r' = id' r \<and> email r' = email r \<and> session_id r' = session_id r
                  \<and> (id' r \<noteq> id' u \<longrightarrow> r' = r)) rows rows'"
    unfolding rg by (simp add: list_all2_map2 list_all2_same gid gem gse gne)
  have sess: "\<forall>s v. get_user_from_session_id L rows s = Inr (Some v) \<longrightarrow>
           (\<exists>v'. get_user_from_session_id L rows' s = Inr (Some v') \<and> id' v' = id' v
                \<and> email v' = email v \<and> session_id v' = session_id v)"
  proof (intro allI impI)
    fix s v assume g1: "get_user_from_session_id L rows s = Inr (Some v)"
    then obtain tok where s: "s = Some tok"
      by (cases s) (simp_all add: get_user_from_session_id_def)
    from g1 s have fr: "first_row (\<lambda>r. session_id r = PStr tok) rows = Some v"
      by (simp add: session_lookup)
    have "first_row (\<lambda>r. session_id r = PStr tok) (map g rows) =
        map_option g (first_row (\<lambda>r. session_id r = PStr tok) rows)"
      by (rule first_row_map) (simp_all add: gse gid)
    with fr have "get_user_from_session_id L rows' s = Inr (Some (g v))"
      by (simp add: s rg get_user_from_session_id_def find_user_by_session_id)
    then show "\<exists>v'. get_user_from_session_id L rows' s = Inr (Some v') \<and> id' v' = id' v
                \<and> email v' = email v \<and> session_id v' = session_id v"
      by (simp add: gid gem gse)
  qed
  from frame sess show "list_all2 (\<lambda>r r'. id' r' = id' r \<and> email r' = email r \<and> session_id r' = session_id r
                  \<and> (id' r \<noteq> id' u \<longrightarrow> r' = r)) rows rows'
     \<and> (\<forall>s v. get_user_from_session_id L rows s = Inr (Some v) \<longrightarrow>
           (\<exists>v'. get_user_from_session_id L rows' s = Inr (Some v') \<and> id' v' = id' v
                \<and> email v' = email v \<and> session_id v' = session_id v))"
    by blast
qed

theorem update_password_frame_witness:
  "update_password instance_libs
       [example_user\<lparr>session_id := PStr ''5a006849'', reset_token := PStr ''tok''\<rparr>]
       ''tok'' (ascii ''new'') example_salt
     = Inr [example_user\<lparr>hashed_password :=
                PBytes ''$2b$12$abcdefghijklmnopqrstuvwen............................'',
              session_id := PStr ''5a006849''\<rparr>]
   \<and> (\<exists>v'. get_user_from_session_id instance_libs
          [example_user\<lparr>hashed_password :=
                PBytes ''$2b$12$abcdefghijklmnopqrstuvwen............................'',
              session_id := PStr ''5a006849''\<rparr>] (Some ''5a006849'') = Inr (Some v')
        \<and> id' v' = 1 \<and> email v' = PStr ''bob@hbtn.io'' \<and> session_id v' = PStr ''5a006849'')"
proof -
  let ?u = "example_user\<lparr>session_id := PStr ''5a006849'', reset_token := PStr ''tok''\<rparr>"
  let ?u' = "example_user\<lparr>hashed_password :=
                PBytes ''$2b$12$abcdefghijklmnopqrstuvwen............................'',
              session_id := PStr ''5a006849''\<rparr>"
  have h1: "find_user_by instance_libs [?u] [(''reset_token'', PStr ''tok'')] = Inr ?u"
    by (simp add: find_user_by_reset_token)
  have "hashpw instance_libs ''new'' example_salt
     = Inr ''$2b$12$abcdefghijklmnopqrstuvwen............................''"
    by code_simp
  then have k: "auth_hash_password instance_libs example_salt (ascii ''new'')
     = Inr ''$2b$12$abcdefghijklmnopqrstuvwen............................''"
    by (simp add: auth_hash_password_ascii)
  from update_password_found[OF h1 k]
  have h2: "update_password instance_libs [?u] ''tok'' (ascii ''new'') example_salt = Inr [?u']"
    by (simp add: example_user_def)
  have h3: "get_user_from_session_id instance_libs [?u] (Some ''5a006849'') = Inr (Some ?u)"
    by code_simp
  from h1 h2 update_password_frame[where L = instance_libs and rows = "[?u]" and t = "''tok''"
      and u = ?u and p = "(ascii ''new'')" and salt = example_salt and rows' = "[?u']"]
  have "\<forall>s v. get_user_from_session_id instance_libs [?u] s = Inr (Some v) \<longrightarrow>
           (\<exists>v'. get_user_from_session_id instance_libs [?u'] s = Inr (Some v') \<and> id' v' = id' v
                \<and> email v' = email v \<and> session_id v' = session_id v)"
    by blast
  with h3 have "\<exists>v'. get_user_from_session_id instance_libs [?u'] (Some ''5a006849'')
        = Inr (Some v') \<and> id' v' = id' ?u \<and> email v' = email ?u
        \<and> session_id v' = session_id ?u"
    by blast
  with h2 show ?thesis by (simp add: example_user_def)
qed

end
